theory Spec2Isabelle
  imports Main
begin

section \<open>Values, exceptions and effects\<close>

text \<open>
  The program \<^verbatim>\<open>merge.py\<close> is a linear script around calls to remote services (the
  hosting platform's object API, its GraphQL endpoint, the local version-control tool)
  and to two parsers. Every such call can raise. The model makes that explicit:
  a computation takes the world, returns either an exception or a value, and the world
  after it. The world holds the trace of observable effects in program order, the names
  of the repositories of the organization, and the number of \<^verbatim>\<open>get_pull\<close> calls
  made so far (the review request is live: a later call may see another state).
  Reads leave no event; a request that changes something is recorded when it is sent.
  Log messages are written without their inner single quotes. The temporary directory
  of \<^verbatim>\<open>main\<close> is a path only: its removal at the end has no event.
\<close>

datatype pyval =
    PNone
  | PBool bool
  | PInt int
  | PStr string
  | PList "pyval list"
  | PDict "(string \<times> pyval) list"

datatype exn =
    GithubException nat
  | GLibError string
  | YAMLError string
  | OSError
  | JSONDecodeError
  | CalledProcessError string
  | TypeError
  | KeyError string
  | IndexError
  | ValueError
  | AttributeError
  | OtherError string

datatype level = INFO | ERROR

datatype logarg = AStr string | AInt int | AList "string list" | AExn exn | AVal pyval

datatype event =
    Log level string "logarg list"
  | CloneRepository string string
  | SubmodulesUpdate
  | CreateRepo string
  | Sleep nat
  | EditRepo string string bool
  | RemoteCreate string string
  | GitPush string string
  | RemoveFromCollaborators string string
  | CreateBranchProtectionRule string string
  | AddToCollaborators string string string
  | UpdateTeamRepository string string string
  | PrSetLabels int string
  | PrCreateIssueComment int string
  | PrEdit int string
  | IssueLock int string

record world =
  trace :: "event list"
  org_repos :: "string list"
  pull_calls :: nat

type_synonym 'a prog = "world \<Rightarrow> (exn + 'a) \<times> world"

definition ret :: "'a \<Rightarrow> 'a prog" where
  "ret x = (\<lambda>w. (Inr x, w))"

definition raise_exn :: "exn \<Rightarrow> 'a prog" where
  "raise_exn e = (\<lambda>w. (Inl e, w))"

definition lift :: "exn + 'a \<Rightarrow> 'a prog" where
  "lift r = (\<lambda>w. (r, w))"

definition emit :: "event \<Rightarrow> unit prog" where
  "emit e = (\<lambda>w. (Inr (), w\<lparr>trace := trace w @ [e]\<rparr>))"

definition andthen :: "'a prog \<Rightarrow> ('a \<Rightarrow> 'b prog) \<Rightarrow> 'b prog" where
  "andthen m f = (\<lambda>w. case m w of (Inl e, w') \<Rightarrow> (Inl e, w') | (Inr x, w') \<Rightarrow> f x w')"

definition try_except :: "'a prog \<Rightarrow> (exn \<Rightarrow> 'a prog option) \<Rightarrow> 'a prog" where
  "try_except m h = (\<lambda>w. case m w of
       (Inl e, w') \<Rightarrow> (case h e of None \<Rightarrow> (Inl e, w') | Some k \<Rightarrow> k w')
     | (Inr x, w') \<Rightarrow> (Inr x, w'))"

definition logging_info :: "string \<Rightarrow> logarg list \<Rightarrow> unit prog" where
  "logging_info fmt args = emit (Log INFO fmt args)"

definition logging_error :: "string \<Rightarrow> logarg list \<Rightarrow> unit prog" where
  "logging_error fmt args = emit (Log ERROR fmt args)"

text \<open>A call that returns nothing: the request is recorded, then it may raise.\<close>

definition call :: "event \<Rightarrow> exn option \<Rightarrow> unit prog" where
  "call e r = andthen (emit e) (\<lambda>_. case r of None \<Rightarrow> ret () | Some x \<Rightarrow> raise_exn x)"

section \<open>Remote objects\<close>

text \<open>
  The objects of the hosting platform's client library are handles: a record of the
  attributes the program reads and of the outcome of each method it calls.
\<close>

record issue =
  issue_locked :: bool
  issue_lock :: "exn option"

record pull_request =
  pr_number :: int
  pr_state :: string
  pr_head_label :: string
  pr_head_sha :: string
  pr_head_repo_clone_url :: "string option"
  pr_user_login :: string
  pr_set_labels :: "exn option"
  pr_create_issue_comment :: "exn option"
  pr_edit :: "exn option"
  pr_get_issue :: "exn + issue"

record branch =
  commit_sha :: string
  protected :: bool

record repository =
  repository_name :: string
  html_url :: string
  get_pull :: "nat \<Rightarrow> int \<Rightarrow> exn + pull_request"
  get_branch :: "string \<Rightarrow> exn + branch"
  remove_from_collaborators :: "string \<Rightarrow> exn option"
  add_to_collaborators :: "string \<Rightarrow> exn option"
  repo_edit :: "exn option"

text \<open>The n-th call of \<^verbatim>\<open>get_pull\<close> of the run is answered by \<open>get_pull repo n\<close>.\<close>

definition repo_get_pull :: "repository \<Rightarrow> int \<Rightarrow> pull_request prog" where
  "repo_get_pull repo pr_id =
     (\<lambda>w. (get_pull repo (pull_calls w) pr_id, w\<lparr>pull_calls := Suc (pull_calls w)\<rparr>))"

section \<open>Manifest identifier resolution\<close>

text \<open>
  A directory entry: its name, whether it is a regular file, and what each of the two
  parsers makes of its content. For the YAML loader that is an exception or the loaded
  value; for the JSON parser a load error (its message) or the root node of the document.
  A path handed to the readers below is represented by the entry it denotes:
  \<^verbatim>\<open>os.path.basename(path)\<close> is \<open>entry_name\<close>, \<^verbatim>\<open>os.path.isfile(path)\<close> is
  \<open>entry_isfile\<close>.
\<close>

record dir_entry =
  entry_name :: string
  entry_isfile :: bool
  yaml_safe_load :: "exn + pyval"
  json_load_from_file :: "string + pyval option"

definition startswith :: "string \<Rightarrow> string \<Rightarrow> bool" where
  "startswith s p = (take (length p) s = p)"

definition endswith :: "string \<Rightarrow> string \<Rightarrow> bool" where
  "endswith s x = (length x \<le> length s \<and> drop (length s - length x) s = x)"

text \<open>Python truth value, and \<^verbatim>\<open>a or b\<close>.\<close>

fun truthy :: "pyval \<Rightarrow> bool" where
  "truthy PNone = False"
| "truthy (PBool b) = b"
| "truthy (PInt i) = (i \<noteq> 0)"
| "truthy (PStr s) = (s \<noteq> [])"
| "truthy (PList xs) = (xs \<noteq> [])"
| "truthy (PDict kvs) = (kvs \<noteq> [])"

definition py_or :: "pyval \<Rightarrow> pyval \<Rightarrow> pyval" where
  "py_or a b = (if truthy a then a else b)"

text \<open>\<^verbatim>\<open>d.get(key)\<close> on a dict.\<close>

definition dict_get :: "(string \<times> pyval) list \<Rightarrow> string \<Rightarrow> pyval" where
  "dict_get d k = (case map_of d k of None \<Rightarrow> PNone | Some v \<Rightarrow> v)"

text \<open>\<^verbatim>\<open>v[key]\<close> with a string key: only a dict has one.\<close>

definition getitem :: "pyval \<Rightarrow> string \<Rightarrow> exn + pyval" where
  "getitem v k = (case v of
       PDict d \<Rightarrow> (case map_of d k of None \<Rightarrow> Inl (KeyError k) | Some x \<Rightarrow> Inr x)
     | _ \<Rightarrow> Inl TypeError)"

text \<open>
  \<^verbatim>\<open>json.loads(Json.to_string(parser.get_root(), False))\<close>: the parser has no root node
  after a failed load and for an empty document, and serialising an absent node is a
  TypeError.
\<close>

definition json_loads_to_string :: "pyval option \<Rightarrow> exn + pyval" where
  "json_loads_to_string root = (case root of None \<Rightarrow> Inl TypeError | Some v \<Rightarrow> Inr v)"

definition read_json_flatpak_manifest :: "dir_entry \<Rightarrow> pyval prog" where
  "read_json_flatpak_manifest path =
     (if entry_isfile path \<and> endswith (entry_name path) ''.json'' then
        andthen (case json_load_from_file path of
                   Inl message \<Rightarrow>
                     andthen (logging_error ''Failed to load JSON Flatpak manifest: %s''
                                [AStr message]) (\<lambda>_. ret None)
                 | Inr root \<Rightarrow> ret root) (\<lambda>root.
        lift (json_loads_to_string root))
      else ret (PDict []))"

definition read_yaml_flatpak_manifest :: "dir_entry \<Rightarrow> pyval prog" where
  "read_yaml_flatpak_manifest path =
     (if entry_isfile path \<and>
         (endswith (entry_name path) ''.yml'' \<or> endswith (entry_name path) ''.yaml'') then
        try_except (lift (yaml_safe_load path))
          (\<lambda>err. case err of
             YAMLError m \<Rightarrow>
               Some (andthen (logging_error ''Failed to load YAML Flatpak manifest: %s''
                                [AExn err]) (\<lambda>_. ret (PDict [])))
           | _ \<Rightarrow> None)
      else ret (PDict []))"

definition read_flatpak_manifest :: "dir_entry \<Rightarrow> pyval prog" where
  "read_flatpak_manifest path =
     (if endswith (entry_name path) ''.yaml'' \<or> endswith (entry_name path) ''.yml''
      then read_yaml_flatpak_manifest path
      else read_json_flatpak_manifest path)"

definition get_id_from_flatpak_manifest :: "dir_entry \<Rightarrow> pyval prog" where
  "get_id_from_flatpak_manifest path =
     andthen (read_flatpak_manifest path) (\<lambda>manifest.
     let appid = (case manifest of
                    PDict d \<Rightarrow> py_or (dict_get d ''app-id'') (dict_get d ''id'')
                  | _ \<Rightarrow> PNone) in
     if \<not> truthy appid then
       andthen (logging_error ''Manifest %s does not contain app-id or id''
                  [AStr (entry_name path)]) (\<lambda>_. ret appid)
     else ret appid)"

text \<open>
  \<^verbatim>\<open>os.path.splitext(name)[0]\<close> for a name without directory separator: the part
  before the last dot, unless only dots precede it; then the whole name.
\<close>

definition splitext_root :: "string \<Rightarrow> string" where
  "splitext_root p =
     (let ext = takeWhile (\<lambda>c. c \<noteq> CHR ''.'') (rev p);
          root = take (length p - length ext - 1) p
      in if CHR ''.'' \<in> set p \<and> \<not> list_all (\<lambda>c. c = CHR ''.'') root then root else p)"

text \<open>
  \<^verbatim>\<open>glob.glob(os.path.join(dirname, "*.ext"))\<close> over the listing of the directory, in
  the listing's order: names that end in \<^verbatim>\<open>.ext\<close> and do not start with a dot.
\<close>

definition glob_ext :: "dir_entry list \<Rightarrow> string \<Rightarrow> dir_entry list" where
  "glob_ext listing ext =
     filter (\<lambda>e. endswith (entry_name e) (CHR ''.'' # ext) \<and> \<not> startswith (entry_name e) ''.'')
       listing"

definition candidate_files :: "dir_entry list \<Rightarrow> dir_entry list" where
  "candidate_files listing =
     concat (map (\<lambda>ext. filter entry_isfile (glob_ext listing ext)) [''yml'', ''yaml'', ''json''])"

text \<open>
  The loop of \<^verbatim>\<open>detect_appid\<close> over the candidate files. The test
  \<^verbatim>\<open>appid and os.path.splitext(manifest_file)[0] == appid\<close> compares a string with
  the declared identifier, so it holds for a non-empty string value only.
\<close>

primrec detect_appid_loop :: "dir_entry list \<Rightarrow> (string option \<times> string option) prog" where
  "detect_appid_loop [] = ret (None, None)"
| "detect_appid_loop (filename # files) =
     (let manifest_file = entry_name filename in
      andthen (logging_info ''Checking file %s for Flatpak ID'' [AStr manifest_file]) (\<lambda>_.
      andthen (get_id_from_flatpak_manifest filename) (\<lambda>appid.
      case appid of
        PStr a \<Rightarrow>
          if a \<noteq> [] \<and> splitext_root manifest_file = a then
            andthen (logging_info ''Detected Flatpak ID %s and manifest file %s''
                       [AStr a, AStr manifest_file]) (\<lambda>_.
            ret (Some manifest_file, Some a))
          else detect_appid_loop files
      | _ \<Rightarrow> detect_appid_loop files)))"

definition detect_appid ::
  "(string \<Rightarrow> dir_entry list) \<Rightarrow> string \<Rightarrow> (string option \<times> string option) prog" where
  "detect_appid listdir dirname =
     (let files = candidate_files (listdir dirname) in
      if files = [] then
        andthen (logging_error ''Found no valid Flatpak manifest files in %s'' [AStr dirname])
          (\<lambda>_. ret (None, None))
      else detect_appid_loop files)"

section \<open>Command parser\<close>

text \<open>
  The comment is a string of code points below 256, one \<open>char\<close> each. The character
  classes of the two regular expressions of \<^verbatim>\<open>parse_merge_command\<close>: \<^verbatim>\<open>[a-fA-F0-9]\<close>, \<^verbatim>\<open>[\w.-]\<close> and
  \<^verbatim>\<open>[a-zA-Z0-9-]\<close>.
\<close>

definition is_digit :: "char \<Rightarrow> bool" where
  "is_digit c = (c \<in> set ''0123456789'')"

definition is_alpha :: "char \<Rightarrow> bool" where
  "is_alpha c = (c \<in> set ''abcdefghijklmnopqrstuvwxyzABCDEFGHIJKLMNOPQRSTUVWXYZ'')"

definition is_hex :: "char \<Rightarrow> bool" where
  "is_hex c = (c \<in> set ''abcdefABCDEF0123456789'')"

text \<open>
  \<^verbatim>\<open>\w\<close> in a pattern on text is the Unicode class: besides the ASCII letters, the
  digits and the underscore it holds every alphanumeric code point. Below 256 those are
  170, 178, 179, 181, 185, 186, 188 to 190, 192 to 214, 216 to 246 and 248 to 255.
\<close>

definition is_word_above_ascii :: "char \<Rightarrow> bool" where
  "is_word_above_ascii c =
     (let n = (of_char c :: nat) in
      n = 170 \<or> n = 178 \<or> n = 179 \<or> n = 181 \<or> n = 185 \<or> n = 186 \<or>
      (188 \<le> n \<and> n \<le> 190) \<or> (192 \<le> n \<and> n \<le> 214) \<or>
      (216 \<le> n \<and> n \<le> 246) \<or> 248 \<le> n)"

definition is_word_char :: "char \<Rightarrow> bool" where
  "is_word_char c = (is_alpha c \<or> is_digit c \<or> c = CHR ''_'' \<or> is_word_above_ascii c)"

definition is_branch_char :: "char \<Rightarrow> bool" where
  "is_branch_char c = (is_word_char c \<or> c = CHR ''.'' \<or> c = CHR ''-'')"

definition is_handle_char :: "char \<Rightarrow> bool" where
  "is_handle_char c = (is_alpha c \<or> is_digit c \<or> c = CHR ''-'')"

definition strip_prefix :: "string \<Rightarrow> string \<Rightarrow> string option" where
  "strip_prefix p s = (if startswith s p then Some (drop (length p) s) else None)"

text \<open>
  The optional group \<^verbatim>\<open>(?::([\w.-]+))?\<close> at the start of a string: the group and
  the rest. The class does not contain the space that must follow, so only the longest
  run can lead to a match, and where the group does not match it is skipped.
\<close>

definition match_branch_group :: "string \<Rightarrow> string option \<times> string" where
  "match_branch_group s = (case s of
       c # t \<Rightarrow>
         if c = CHR '':'' \<and> takeWhile is_branch_char t \<noteq> []
         then (Some (takeWhile is_branch_char t), dropWhile is_branch_char t)
         else (None, s)
     | [] \<Rightarrow> (None, s))"

text \<open>
  \<^verbatim>\<open>(.*)$\<close> at the start of a string: the dot matches every character but the
  newline, and the end anchor matches at the end of the string and before a newline that
  is its last character.
\<close>

definition match_rest :: "string \<Rightarrow> string option" where
  "match_rest s =
     (if CHR 0x0A \<notin> set s then Some s
      else if s \<noteq> [] \<and> last s = CHR 0x0A \<and> CHR 0x0A \<notin> set (butlast s) then Some (butlast s)
      else None)"

text \<open>
  \<^verbatim>\<open>re.compile(r"^/merge(?::([\w.-]+))? head=([a-fA-F0-9]{40})(.*)$").search\<close>:
  the three groups of the match, if there is one.
\<close>

definition command_pattern_search :: "string \<Rightarrow> (string option \<times> string \<times> string) option" where
  "command_pattern_search s =
     (case strip_prefix ''/merge'' s of
        None \<Rightarrow> None
      | Some r1 \<Rightarrow>
          (case match_branch_group r1 of (g1, r2) \<Rightarrow>
             (case strip_prefix '' head='' r2 of
                None \<Rightarrow> None
              | Some r3 \<Rightarrow>
                  if length (take 40 r3) = 40 \<and> list_all is_hex (take 40 r3) then
                    (case match_rest (drop 40 r3) of
                       None \<Rightarrow> None
                     | Some g3 \<Rightarrow> Some (g1, take 40 r3, g3))
                  else None)))"

text \<open>
  \<^verbatim>\<open>re.findall(r"@[a-zA-Z0-9-]{1,39}", s)\<close>: the matches from left to right, each
  as long as possible, the search going on after the end of a match.
\<close>

fun findall_handles :: "string \<Rightarrow> string list" where
  "findall_handles [] = []"
| "findall_handles (c # cs) =
     (if c = CHR ''@'' \<and> take 39 (takeWhile is_handle_char cs) \<noteq> []
      then (c # take 39 (takeWhile is_handle_char cs))
             # findall_handles (drop (length (take 39 (takeWhile is_handle_char cs))) cs)
      else findall_handles cs)"

definition parse_merge_command ::
  "string \<Rightarrow> (string option \<times> string option \<times> string list option) prog" where
  "parse_merge_command github_comment =
     (if \<not> startswith github_comment ''/merge'' then
        andthen (logging_info ''The comment does not start with /merge'' [])
          (\<lambda>_. ret (None, None, None))
      else case command_pattern_search github_comment of
        None \<Rightarrow>
          andthen (logging_info
                     (''The comment is not a valid /merge command.'' @ [CHR 0x0A] @
                      ''Format: /merge:<optional target repo default branch, default: master> '' @
                      ''head=<pr head commit sha 40 chars> '' @
                      ''<optional extra collaborators @foo @baz, default: pr author>'') [])
            (\<lambda>_. ret (None, None, None))
      | Some (g1, g2, g3) \<Rightarrow>
          (let branch_match = (case g1 of None \<Rightarrow> ''master''
                               | Some b \<Rightarrow> if b = [] then ''master'' else b);
               target_repo_default_branch =
                 (if branch_match = ''master'' \<or> branch_match = ''beta'' then branch_match
                  else ''branch/'' @ branch_match) in
           andthen (logging_info ''Got target branch %s from comment''
                      [AStr target_repo_default_branch]) (\<lambda>_.
           let pr_head_sha = g2 in
           andthen (logging_info ''Got PR HEAD SHA %s from comment'' [AStr pr_head_sha]) (\<lambda>_.
           let rest_comment = g3;
               additional_colbs = map tl (findall_handles rest_comment) in
           andthen (logging_info ''Got additional collaborators %s from comment''
                      [AList additional_colbs]) (\<lambda>_.
           ret (Some target_repo_default_branch, Some pr_head_sha, Some additional_colbs))))))"

section \<open>Source acquisition\<close>

text \<open>
  The local clone as the version-control library hands it out: the SHA of its HEAD, the
  outcome of updating its submodules and of registering a remote, and the entries of its
  work tree. The first argument of \<open>clone_pr_fork\<close> is the clone operation: what
  cloning a URL into a path at a branch gives.
\<close>

record clone =
  head_target :: string
  submodules_update :: "exn option"
  remotes_create :: "exn option"
  worktree :: "dir_entry list"

definition clone_pr_fork ::
  "(string \<Rightarrow> string \<Rightarrow> string \<Rightarrow> exn + clone) \<Rightarrow> repository \<Rightarrow> int \<Rightarrow> string \<Rightarrow> string
     \<Rightarrow> string \<Rightarrow> string \<Rightarrow> clone option prog" where
  "clone_pr_fork clone_repository parent_repo_obj pr_id fork_url pr_branch approved_head_sha
       clone_path =
     andthen (logging_info ''Cloning the public fork %s from the PR branch %s''
                [AStr fork_url, AStr pr_branch]) (\<lambda>_.
     andthen (emit (CloneRepository fork_url pr_branch)) (\<lambda>_.
     andthen (lift (clone_repository fork_url clone_path pr_branch)) (\<lambda>cl.
     let clone_head_sha = head_target cl in
     andthen (call SubmodulesUpdate (submodules_update cl)) (\<lambda>_.
     andthen (repo_get_pull parent_repo_obj pr_id) (\<lambda>pr_tmp.
     if pr_state pr_tmp \<noteq> ''open'' then
       andthen (logging_error ''The PR state is unexpectedly not open'' []) (\<lambda>_. ret None)
     else if clone_head_sha \<noteq> approved_head_sha \<or> pr_head_sha pr_tmp \<noteq> approved_head_sha then
       andthen (logging_error ''SHA mismatch: Clone HEAD %s, PR HEAD %s, Expected %s''
                  [AStr clone_head_sha, AStr (pr_head_sha pr_tmp), AStr approved_head_sha])
         (\<lambda>_. ret None)
     else ret (Some cl))))))"

section \<open>Destination provisioning\<close>

text \<open>
  The organization handle. Which repositories exist is the world's \<open>org_repos\<close>; the
  handle adds what the service may do wrong at a call (\<open>get_repo_fault\<close>,
  \<open>create_repo_fault\<close>: the exception that call raises, if any) and the repository
  object the library returns for a name. Without a fault, \<^verbatim>\<open>get_repo\<close> answers 404
  for a name that is not there, and \<^verbatim>\<open>create_repo\<close> refuses a name that is there
  (status 422) and adds any other name. A call that raises changes nothing.
\<close>

record team =
  has_in_members :: "string \<Rightarrow> exn + bool"
  update_team_repository :: "string \<Rightarrow> string \<Rightarrow> exn + bool"

record organization =
  get_team_by_slug :: "string \<Rightarrow> exn + team"
  get_repo_fault :: "string \<Rightarrow> exn option"
  create_repo_fault :: "string \<Rightarrow> exn option"
  repo_object :: "string \<Rightarrow> repository"

definition org_get_repo :: "organization \<Rightarrow> string \<Rightarrow> repository prog" where
  "org_get_repo org repo_name =
     (\<lambda>w. case get_repo_fault org repo_name of
            Some e \<Rightarrow> (Inl e, w)
          | None \<Rightarrow>
              if repo_name \<in> set (org_repos w) then (Inr (repo_object org repo_name), w)
              else (Inl (GithubException 404), w))"

definition org_create_repo :: "organization \<Rightarrow> string \<Rightarrow> repository prog" where
  "org_create_repo org repo_name =
     andthen (emit (CreateRepo repo_name)) (\<lambda>_ w.
       case create_repo_fault org repo_name of
         Some e \<Rightarrow> (Inl e, w)
       | None \<Rightarrow>
           if repo_name \<in> set (org_repos w) then (Inl (GithubException 422), w)
           else (Inr (repo_object org repo_name), w\<lparr>org_repos := org_repos w @ [repo_name]\<rparr>))"

definition get_repo_in_org :: "organization \<Rightarrow> string \<Rightarrow> repository option prog" where
  "get_repo_in_org org repo_name =
     try_except (andthen (org_get_repo org repo_name) (\<lambda>r. ret (Some r)))
       (\<lambda>err. case err of
          GithubException status \<Rightarrow>
            Some (if status = 404 then
                    andthen (logging_info ''Repository %s does not exist in the organization''
                               [AStr repo_name]) (\<lambda>_. ret None)
                  else
                    andthen (logging_error
                               ''Unexpected error from GitHub while fetching repository %s: %s''
                               [AStr repo_name, AExn err]) (\<lambda>_. ret None))
        | _ \<Rightarrow> None)"

definition repo_exists_in_org :: "organization \<Rightarrow> string \<Rightarrow> bool prog" where
  "repo_exists_in_org org repo_name =
     andthen (get_repo_in_org org repo_name) (\<lambda>r. ret (r \<noteq> None))"

definition create_new_flathub_repo :: "organization \<Rightarrow> string \<Rightarrow> repository option prog" where
  "create_new_flathub_repo org repo_name =
     andthen (repo_exists_in_org org repo_name) (\<lambda>exists.
     if exists then ret None
     else
       try_except
         (andthen (logging_info ''Creating repository %s'' [AStr repo_name]) (\<lambda>_.
          andthen (org_create_repo org repo_name) (\<lambda>repo.
          andthen (emit (Sleep 5)) (\<lambda>_.
          andthen (call (EditRepo repo_name (''https://flathub.org/apps/details/'' @ repo_name) True)
                     (repo_edit repo)) (\<lambda>_.
          ret (Some repo))))))
         (\<lambda>err. case err of
            GithubException status \<Rightarrow>
              Some (andthen (logging_error ''Failed to create or edit GitHub repository %s: %s''
                               [AStr repo_name, AExn err]) (\<lambda>_. ret None))
          | _ \<Rightarrow> None))"

section \<open>Publication\<close>

text \<open>
  \<open>subprocess_run cmd cwd\<close> is the outcome of running a command with
  \<^verbatim>\<open>check=True\<close>: the exception it raises, if any.
\<close>

definition push_to_flathub_remote ::
  "(string list \<Rightarrow> string \<Rightarrow> exn option) \<Rightarrow> string \<Rightarrow> string \<Rightarrow> string \<Rightarrow> bool prog" where
  "push_to_flathub_remote subprocess_run repo_path local_branch remote_branch =
     try_except
       (andthen (logging_info ''Pushing changes to the new Flathub repo'' []) (\<lambda>_.
        let git_push_cmd = [''git'', ''push'', ''flathub'', local_branch @ '':'' @ remote_branch] in
        andthen (call (GitPush local_branch remote_branch) (subprocess_run git_push_cmd repo_path))
          (\<lambda>_. ret True)))
       (\<lambda>err. case err of
          CalledProcessError output \<Rightarrow>
            Some (andthen (logging_error (''Git push failed:'' @ [CHR 0x0A] @ ''%s'') [AStr output])
                    (\<lambda>_. ret False))
        | _ \<Rightarrow> None)"

text \<open>
  The GraphQL client made from a token: the answer to the query for the repository id and
  to the mutation that creates a branch protection rule.
\<close>

record gql_client =
  execute_get_repo_id :: "string \<Rightarrow> exn + pyval"
  execute_add_branch_protection :: "pyval \<Rightarrow> string \<Rightarrow> exn + pyval"

definition set_protected_branch ::
  "(string \<Rightarrow> gql_client) \<Rightarrow> string \<Rightarrow> string \<Rightarrow> string \<Rightarrow> pyval prog" where
  "set_protected_branch graphql token repo branch =
     (let client = graphql token in
      andthen (lift (execute_get_repo_id client repo)) (\<lambda>repo_id.
      andthen (lift (getitem repo_id ''repository'')) (\<lambda>repository.
      andthen (lift (getitem repository ''id'')) (\<lambda>repo_id.
      andthen (emit (CreateBranchProtectionRule repo branch)) (\<lambda>_.
      lift (execute_add_branch_protection client repo_id branch))))))"

primrec for_each :: "'a list \<Rightarrow> ('a \<Rightarrow> 'b prog) \<Rightarrow> unit prog" where
  "for_each [] body = ret ()"
| "for_each (x # xs) body = andthen (body x) (\<lambda>_. for_each xs body)"

definition protected_patterns :: "string list" where
  "protected_patterns = [''master'', ''main'', ''stable'', ''branch/*'', ''beta'', ''beta/*'']"

definition finalize_new_flathub_repo ::
  "(string list \<Rightarrow> string \<Rightarrow> exn option) \<Rightarrow> (string \<Rightarrow> gql_client) \<Rightarrow> clone \<Rightarrow> repository
     \<Rightarrow> string \<Rightarrow> string \<Rightarrow> string \<Rightarrow> string \<Rightarrow> string \<Rightarrow> string \<Rightarrow> bool prog" where
  "finalize_new_flathub_repo subprocess_run graphql cloned_repo_obj remote_repo_obj repo_name
       github_token pr_branch target_remote_branch approved_pr_sha clone_path =
     andthen (logging_info ''Adding Flathub remote'' []) (\<lambda>_.
     andthen (call (RemoteCreate ''flathub''
                      (''https://x-access-token:'' @ github_token @ ''@github.com/flathub/''
                         @ repo_name))
                (remotes_create cloned_repo_obj)) (\<lambda>_.
     andthen (push_to_flathub_remote subprocess_run clone_path pr_branch target_remote_branch)
       (\<lambda>pushed.
     if \<not> pushed then ret False
     else
       andthen (logging_info ''Removing flathubbot from collaborators'' []) (\<lambda>_.
       andthen (call (RemoveFromCollaborators (repository_name remote_repo_obj) ''flathubbot'')
                  (remove_from_collaborators remote_repo_obj ''flathubbot'')) (\<lambda>_.
       andthen (logging_info ''Setting protected branches'' []) (\<lambda>_.
       andthen (for_each protected_patterns
                  (\<lambda>branch. set_protected_branch graphql github_token repo_name branch)) (\<lambda>_.
       andthen (lift (get_branch remote_repo_obj target_remote_branch)) (\<lambda>remote_branch_obj.
       let remote_head_sha = commit_sha remote_branch_obj in
       if remote_head_sha \<noteq> approved_pr_sha then
         andthen (logging_error ''Remote HEAD SHA %s does not match approved SHA %s''
                    [AStr remote_head_sha, AStr approved_pr_sha]) (\<lambda>_. ret False)
       else if \<not> protected remote_branch_obj then
         andthen (logging_error ''Remote branch %s is not protected''
                    [AStr target_remote_branch]) (\<lambda>_. ret False)
       else ret True))))))))"

section \<open>Access grant\<close>

definition teams_to_add :: "string \<Rightarrow> string list" where
  "teams_to_add name =
     [''trusted-maintainers''] @
     (if startswith name ''org.kde.'' then [''KDE'']
      else if startswith name ''org.gnome.'' \<and> count_list name CHR ''.'' = 2 then [''GNOME'']
      else [])"

definition add_all_collaborators ::
  "organization \<Rightarrow> repository \<Rightarrow> string list \<Rightarrow> bool prog" where
  "add_all_collaborators org created_repo_obj collaborators =
     try_except
       (andthen (for_each collaborators (\<lambda>user.
          andthen (logging_info ''Adding user %s to collaborators'' [AStr user]) (\<lambda>_.
          call (AddToCollaborators (repository_name created_repo_obj) user ''push'')
            (add_to_collaborators created_repo_obj user)))) (\<lambda>_.
        andthen (for_each (teams_to_add (repository_name created_repo_obj)) (\<lambda>team.
          andthen (logging_info ''Adding team %s to collaborators'' [AStr team]) (\<lambda>_.
          andthen (lift (get_team_by_slug org team)) (\<lambda>team_slug.
          andthen (emit (UpdateTeamRepository team (repository_name created_repo_obj) ''push'')) (\<lambda>_.
          lift (update_team_repository team_slug (repository_name created_repo_obj) ''push'')))))) (\<lambda>_.
        ret True)))
       (\<lambda>err. case err of
          GithubException status \<Rightarrow>
            Some (andthen (logging_error ''Failed to set collaborators to GitHub repository: %s''
                             [AExn err]) (\<lambda>_. ret False))
        | _ \<Rightarrow> None)"

section \<open>Closure\<close>

definition get_issue_from_pr :: "pull_request \<Rightarrow> issue option prog" where
  "get_issue_from_pr pr_obj =
     try_except (andthen (lift (pr_get_issue pr_obj)) (\<lambda>i. ret (Some i)))
       (\<lambda>err. case err of
          GithubException status \<Rightarrow>
            Some (andthen (logging_error ''Failed to get issue from PR #%d: %s''
                             [AInt (pr_number pr_obj), AExn err]) (\<lambda>_. ret None))
        | _ \<Rightarrow> None)"

definition close_comment :: "repository \<Rightarrow> string" where
  "close_comment created_repo_obj =
     (let maint_doc_url = ''https://docs.flathub.org/docs/for-app-authors/maintenance'';
          verif_doc_url = ''https://docs.flathub.org/docs/for-app-authors/verification'';
          blog_url = ''https://docs.flathub.org/blog'' in
      ''A repository for this submission has been created: '' @
      html_url created_repo_obj @ '' '' @
      ''and it will be published to Flathub within a few hours.'' @ [CHR 0x0A] @
      ''You will receive an [invite]('' @ html_url created_repo_obj @ ''/invitations) '' @
      ''to be a collaborator on the repository. Please make sure to enable '' @
      ''2FA on GitHub and accept the invite within a week.'' @ [CHR 0x0A] @
      ''Please go through the [App maintenance guide]('' @ maint_doc_url @ '') '' @
      ''if you have never maintained an app on Flathub before.'' @ [CHR 0x0A] @
      ''If you are the original developer (or an authorized party), please '' @
      ''[verify your app]('' @ verif_doc_url @ '') '' @
      ''to let users know it'' @ [CHR 0x27] @ ''s coming from you.'' @ [CHR 0x0A] @
      ''Please follow the [Flathub blog]('' @ blog_url @ '') for the latest '' @
      ''announcements.'' @ [CHR 0x0A] @
      ''Thanks!'')"

definition close_pr :: "pull_request \<Rightarrow> repository \<Rightarrow> bool prog" where
  "close_pr pr_obj created_repo_obj =
     try_except
       (andthen (logging_info ''Closing the pull request'' []) (\<lambda>_.
        andthen (call (PrSetLabels (pr_number pr_obj) ''ready'') (pr_set_labels pr_obj)) (\<lambda>_.
        andthen (call (PrCreateIssueComment (pr_number pr_obj) (close_comment created_repo_obj))
                   (pr_create_issue_comment pr_obj)) (\<lambda>_.
        andthen (call (PrEdit (pr_number pr_obj) ''closed'') (pr_edit pr_obj)) (\<lambda>_.
        andthen (get_issue_from_pr pr_obj) (\<lambda>issue_obj.
        andthen (case issue_obj of
                   Some i \<Rightarrow>
                     if \<not> issue_locked i
                     then call (IssueLock (pr_number pr_obj) ''resolved'') (issue_lock i)
                     else ret ()
                 | None \<Rightarrow> ret ()) (\<lambda>_.
        ret True)))))))
       (\<lambda>err. case err of
          GithubException status \<Rightarrow>
            Some (andthen (logging_error ''Unexpected error from GitHub while closing PR: %s''
                             [AExn err]) (\<lambda>_. ret False))
        | _ \<Rightarrow> None)"

section \<open>Trigger event and authorization\<close>

definition load_github_event ::
  "(string \<Rightarrow> string option) \<Rightarrow> (string \<Rightarrow> exn + pyval) \<Rightarrow> pyval prog" where
  "load_github_event os_environ json_load_file =
     (case os_environ ''GITHUB_EVENT_PATH'' of
        None \<Rightarrow> ret (PDict [])
      | Some github_event_path \<Rightarrow>
          if github_event_path = [] then ret (PDict [])
          else
            try_except (lift (json_load_file github_event_path))
              (\<lambda>err. case err of
                 OSError \<Rightarrow>
                   Some (andthen (logging_error ''Failed to open GITHUB_EVENT_PATH %s: %s''
                                    [AStr github_event_path, AVal (PDict [])])
                           (\<lambda>_. ret (PDict [])))
               | JSONDecodeError \<Rightarrow>
                   Some (andthen (logging_error ''Failed to parse GITHUB_EVENT_PATH %s: %s''
                                    [AStr github_event_path, AVal (PDict [])])
                           (\<lambda>_. ret (PDict [])))
               | _ \<Rightarrow> None))"

primrec is_substring :: "string \<Rightarrow> string \<Rightarrow> bool" where
  "is_substring k [] = (k = [])"
| "is_substring k (c # cs) = (startswith (c # cs) k \<or> is_substring k cs)"

text \<open>\<^verbatim>\<open>key in v\<close> for a string key.\<close>

definition py_contains :: "pyval \<Rightarrow> string \<Rightarrow> exn + bool" where
  "py_contains v k = (case v of
       PDict d \<Rightarrow> Inr (map_of d k \<noteq> None)
     | PList xs \<Rightarrow> Inr (PStr k \<in> set xs)
     | PStr s \<Rightarrow> Inr (is_substring k s)
     | _ \<Rightarrow> Inl TypeError)"

definition is_valid_event :: "pyval \<Rightarrow> bool prog" where
  "is_valid_event event =
     (if \<not> truthy event then ret False
      else
        andthen (lift (getitem event ''action'')) (\<lambda>action.
        if action \<noteq> PStr ''created'' then
          andthen (logging_info ''The event is not a comment'' []) (\<lambda>_. ret False)
        else
          andthen (lift (getitem event ''issue'')) (\<lambda>issue.
          andthen (lift (py_contains issue ''pull_request'')) (\<lambda>is_pr.
          if \<not> is_pr then
            andthen (logging_info ''The issue is not a pull request'' []) (\<lambda>_. ret False)
          else ret True))))"

definition is_authorized_commenter :: "organization \<Rightarrow> string \<Rightarrow> bool prog" where
  "is_authorized_commenter org comment_author =
     andthen (lift (get_team_by_slug org ''admins'')) (\<lambda>admins.
     andthen (lift (get_team_by_slug org ''reviewers'')) (\<lambda>reviewers.
     andthen (lift (has_in_members admins comment_author)) (\<lambda>is_admin.
     andthen (if is_admin then ret True
              else lift (has_in_members reviewers comment_author)) (\<lambda>is_member.
     if \<not> is_member then
       andthen (logging_error ''GitHub comment author %s is not a reviewer or an admin''
                  [AStr comment_author]) (\<lambda>_. ret False)
     else ret True))))"

section \<open>Orchestrator\<close>

text \<open>
  What the process gets from outside: the environment variables, the file reader and JSON
  loader of the trigger event, the conversion of a string to an integer, the client of
  the hosting platform made from a token, the path of the temporary directory, the clone
  operation, the subprocess runner and the GraphQL client made from a token.
\<close>

record github_client =
  get_organization :: "string \<Rightarrow> exn + organization"
  get_user :: "pyval \<Rightarrow> exn + string"

record env =
  os_environ :: "string \<Rightarrow> string option"
  json_load_file :: "string \<Rightarrow> exn + pyval"
  int_of_str :: "string \<Rightarrow> int option"
  github_Github :: "string \<Rightarrow> github_client"
  temporary_directory :: string
  clone_repository :: "string \<Rightarrow> string \<Rightarrow> string \<Rightarrow> exn + clone"
  subprocess_run :: "string list \<Rightarrow> string \<Rightarrow> exn option"
  graphql :: "string \<Rightarrow> gql_client"

text \<open>\<^verbatim>\<open>int(v)\<close>.\<close>

definition py_int :: "(string \<Rightarrow> int option) \<Rightarrow> pyval \<Rightarrow> exn + int" where
  "py_int of_str v = (case v of
       PInt n \<Rightarrow> Inr n
     | PBool b \<Rightarrow> Inr (if b then 1 else 0)
     | PStr s \<Rightarrow> (case of_str s of None \<Rightarrow> Inl ValueError | Some n \<Rightarrow> Inr n)
     | _ \<Rightarrow> Inl TypeError)"

text \<open>\<^verbatim>\<open>s.split(sep)\<close> for a separator of one character, and \<^verbatim>\<open>xs[1]\<close>.\<close>

primrec py_split :: "char \<Rightarrow> string \<Rightarrow> string list" where
  "py_split sep [] = [[]]"
| "py_split sep (c # cs) =
     (if c = sep then [] # py_split sep cs
      else (case py_split sep cs of h # t \<Rightarrow> (c # h) # t | [] \<Rightarrow> [[c]]))"

definition second_item :: "'a list \<Rightarrow> exn + 'a" where
  "second_item xs = (case xs of a # b # rest \<Rightarrow> Inr b | _ \<Rightarrow> Inl IndexError)"

text \<open>\<^verbatim>\<open>github_comment.startswith\<close> needs a string.\<close>

definition as_str :: "pyval \<Rightarrow> exn + string" where
  "as_str v = (case v of PStr s \<Rightarrow> Inr s | _ \<Rightarrow> Inl AttributeError)"

record run_context =
  ctx_github_token :: string
  ctx_org :: organization
  ctx_flathub :: repository
  ctx_pr_id :: int
  ctx_pr :: pull_request
  ctx_pr_branch :: string
  ctx_target_repo_default_branch :: string
  ctx_approved_pr_head_sha :: string
  ctx_additional_colbs :: "string list"
  ctx_tmpdir :: string
  ctx_cloned_obj :: clone
  ctx_appid :: string

text \<open>
  \<^verbatim>\<open>main\<close> is written in three parts, in the order of the source. Each part
  answers \<open>Inl rc\<close> where \<^verbatim>\<open>main\<close> returns \<open>rc\<close> at that point, and \<open>Inr\<close> the
  local variables where it goes on. \<open>main_resolve\<close> is lines 487 to 543 (token, event,
  command, authorization, source acquisition, identifier resolution), \<open>main_promote\<close>
  lines 545 to 570 (provisioning, publication, access grant, the check that the review
  request is still open), \<open>main_close\<close> lines 572 to 579 (closure and its check).
\<close>

definition main_resolve :: "env \<Rightarrow> (int + run_context) prog" where
  "main_resolve e =
     (case os_environ e ''INPUT_TOKEN'' of
        None \<Rightarrow> andthen (logging_error ''Token is not set'' []) (\<lambda>_. ret (Inl 1))
      | Some github_token \<Rightarrow>
     if github_token = [] then
       andthen (logging_error ''Token is not set'' []) (\<lambda>_. ret (Inl 1))
     else
     andthen (load_github_event (os_environ e) (json_load_file e)) (\<lambda>github_event.
     andthen (is_valid_event github_event) (\<lambda>valid.
     if \<not> valid then ret (Inl 1)
     else
     andthen (lift (getitem github_event ''comment'')) (\<lambda>comment.
     andthen (lift (getitem comment ''body'')) (\<lambda>body.
     andthen (lift (as_str body)) (\<lambda>github_comment.
     andthen (parse_merge_command github_comment) (\<lambda>parsed.
     case parsed of
       (Some target_repo_default_branch, Some approved_pr_head_sha, Some additional_colbs) \<Rightarrow>
         if target_repo_default_branch = [] \<or> approved_pr_head_sha = [] then ret (Inl 1)
         else
         let gh = github_Github e github_token in
         andthen (lift (get_organization gh ''flathub'')) (\<lambda>org.
         andthen (org_get_repo org ''flathub'') (\<lambda>flathub.
         andthen (lift (getitem github_event ''comment'')) (\<lambda>comment.
         andthen (lift (getitem comment ''user'')) (\<lambda>user.
         andthen (lift (getitem user ''login'')) (\<lambda>login.
         andthen (lift (get_user gh login)) (\<lambda>comment_author.
         andthen (lift (getitem github_event ''issue'')) (\<lambda>issue.
         andthen (lift (getitem issue ''number'')) (\<lambda>number.
         andthen (lift (py_int (int_of_str e) number)) (\<lambda>pr_id.
         andthen (repo_get_pull flathub pr_id) (\<lambda>pr.
         andthen (lift (second_item (py_split CHR '':'' (pr_head_label pr)))) (\<lambda>pr_branch.
         andthen (lift (case pr_head_repo_clone_url pr of
                          None \<Rightarrow> Inl AttributeError | Some u \<Rightarrow> Inr u)) (\<lambda>fork_url.
         let pr_author = pr_user_login pr;
             additional_colbs = additional_colbs @ [pr_author] in
         andthen (is_authorized_commenter org comment_author) (\<lambda>authorized.
         if \<not> authorized then ret (Inl 1)
         else
         let tmpdir = temporary_directory e in
         andthen (clone_pr_fork (clone_repository e) flathub pr_id fork_url pr_branch
                    approved_pr_head_sha tmpdir) (\<lambda>cloned_obj.
         case cloned_obj of
           None \<Rightarrow> ret (Inl 1)
         | Some cloned \<Rightarrow>
             andthen (detect_appid (\<lambda>d. worktree cloned) tmpdir) (\<lambda>detected.
             case detected of
               (Some manifest_file, Some appid) \<Rightarrow>
                 if manifest_file = [] \<or> appid = [] then
                   andthen (logging_error ''Failed to detect manifest file or appid'' [])
                     (\<lambda>_. ret (Inl 1))
                 else
                   ret (Inr \<lparr>ctx_github_token = github_token, ctx_org = org,
                             ctx_flathub = flathub, ctx_pr_id = pr_id, ctx_pr = pr,
                             ctx_pr_branch = pr_branch,
                             ctx_target_repo_default_branch = target_repo_default_branch,
                             ctx_approved_pr_head_sha = approved_pr_head_sha,
                             ctx_additional_colbs = additional_colbs,
                             ctx_tmpdir = tmpdir, ctx_cloned_obj = cloned,
                             ctx_appid = appid\<rparr>)
             | _ \<Rightarrow>
                 andthen (logging_error ''Failed to detect manifest file or appid'' [])
                   (\<lambda>_. ret (Inl 1)))))))))))))))))
     | _ \<Rightarrow> ret (Inl 1))))))))"

definition main_promote :: "env \<Rightarrow> run_context \<Rightarrow> (int + repository) prog" where
  "main_promote e c =
     andthen (create_new_flathub_repo (ctx_org c) (ctx_appid c)) (\<lambda>created_repo_obj.
     case created_repo_obj of
       None \<Rightarrow>
         andthen (logging_error ''Failed to get GitHub repo after creation'' [])
           (\<lambda>_. ret (Inl 1))
     | Some created \<Rightarrow>
         andthen (finalize_new_flathub_repo (subprocess_run e) (graphql e) (ctx_cloned_obj c)
                    created (ctx_appid c) (ctx_github_token c) (ctx_pr_branch c)
                    (ctx_target_repo_default_branch c) (ctx_approved_pr_head_sha c)
                    (ctx_tmpdir c)) (\<lambda>finalized.
         if \<not> finalized then ret (Inl 1)
         else
         andthen (add_all_collaborators (ctx_org c) created (ctx_additional_colbs c)) (\<lambda>added.
         if \<not> added then ret (Inl 1)
         else
         andthen (repo_get_pull (ctx_flathub c) (ctx_pr_id c)) (\<lambda>pr_now.
         if pr_state pr_now \<noteq> ''open'' then
           andthen (logging_error ''The PR state is unexpectedly not open'' [])
             (\<lambda>_. ret (Inl 1))
         else ret (Inr created)))))"

definition main_close :: "env \<Rightarrow> run_context \<Rightarrow> repository \<Rightarrow> int prog" where
  "main_close e c created =
     andthen (close_pr (ctx_pr c) created) (\<lambda>closed.
     if \<not> closed then ret 1
     else
     andthen (repo_get_pull (ctx_flathub c) (ctx_pr_id c)) (\<lambda>pr_now.
     if pr_state pr_now \<noteq> ''closed'' then
       andthen (logging_error ''The PR state is unexpectedly not closed'' []) (\<lambda>_. ret 1)
     else ret 0))"

definition main :: "env \<Rightarrow> int prog" where
  "main e =
     andthen (main_resolve e) (\<lambda>r.
     case r of
       Inl rc \<Rightarrow> ret rc
     | Inr c \<Rightarrow>
         andthen (main_promote e c) (\<lambda>p.
         case p of
           Inl rc \<Rightarrow> ret rc
         | Inr created \<Rightarrow> main_close e c created))"

text \<open>
  The script ends with \<^verbatim>\<open>raise SystemExit(main())\<close>: the exit status is the value
  \<^verbatim>\<open>main\<close> returns, and 1 when an exception escapes from it.
\<close>

definition exit_status :: "exn + int \<Rightarrow> int" where
  "exit_status r = (case r of Inl err \<Rightarrow> 1 | Inr rc \<Rightarrow> rc)"

section \<open>Steps, traces and a program logic\<close>

text \<open>
  Every effect belongs to one step of the workflow. \<open>events_since w w'\<close> is what a run
  from \<open>w\<close> to \<open>w'\<close> added to the trace. \<open>reaches_close\<close> says that a run of
  \<^verbatim>\<open>main\<close> gets to the call of \<^verbatim>\<open>close_pr\<close>. \<open>sat P Q m\<close> says that every
  run of \<open>m\<close> only appends events that satisfy \<open>P\<close> to the trace and that a value it
  returns satisfies \<open>Q\<close>.
\<close>

datatype step = Logging | Acquisition | Provisioning | Publication | Grant | Closure

fun step_of :: "event \<Rightarrow> step" where
  "step_of (Log l f a) = Logging"
| "step_of (CloneRepository u b) = Acquisition"
| "step_of SubmodulesUpdate = Acquisition"
| "step_of (CreateRepo n) = Provisioning"
| "step_of (Sleep n) = Provisioning"
| "step_of (EditRepo n h d) = Provisioning"
| "step_of (RemoteCreate n u) = Publication"
| "step_of (GitPush l r) = Publication"
| "step_of (RemoveFromCollaborators r u) = Publication"
| "step_of (CreateBranchProtectionRule r p) = Publication"
| "step_of (AddToCollaborators r u p) = Grant"
| "step_of (UpdateTeamRepository t r p) = Grant"
| "step_of (PrSetLabels n l) = Closure"
| "step_of (PrCreateIssueComment n c) = Closure"
| "step_of (PrEdit n s) = Closure"
| "step_of (IssueLock n r) = Closure"

definition in_steps :: "step list \<Rightarrow> event \<Rightarrow> bool" where
  "in_steps S e = (step_of e \<in> set S)"

definition events_since :: "world \<Rightarrow> world \<Rightarrow> event list" where
  "events_since w w' = drop (length (trace w)) (trace w')"


definition sat :: "(event \<Rightarrow> bool) \<Rightarrow> ('a \<Rightarrow> bool) \<Rightarrow> 'a prog \<Rightarrow> bool" where
  "sat P Q m \<longleftrightarrow>
     (\<forall>w. (\<exists>tr. trace (snd (m w)) = trace w @ tr \<and> list_all P tr) \<and>
          (\<forall>x. fst (m w) = Inr x \<longrightarrow> Q x))"

text \<open>
  Readings of a trace: the error messages logged, the patterns of the branch protection
  requests and the teams of the permission requests, each in order. \<open>declared_id\<close> is the
  identifier \<^verbatim>\<open>_get_id_from_flatpak_manifest\<close> gives for a file, and \<open>mismatch\<close> holds
  of a file that is read without an exception and does not declare its own base name.
\<close>

fun is_error_log :: "event \<Rightarrow> bool" where
  "is_error_log (Log ERROR f a) = True"
| "is_error_log ev = False"

definition protection_attempts :: "event list \<Rightarrow> string list" where
  "protection_attempts tr =
     concat (map (\<lambda>ev. case ev of CreateBranchProtectionRule r p \<Rightarrow> [p] | _ \<Rightarrow> []) tr)"

definition error_logs :: "event list \<Rightarrow> event list" where
  "error_logs tr = filter is_error_log tr"

definition declared_id :: "dir_entry \<Rightarrow> exn + pyval" where
  "declared_id f =
     fst (get_id_from_flatpak_manifest f \<lparr>trace = [], org_repos = [], pull_calls = 0\<rparr>)"

definition mismatch :: "dir_entry \<Rightarrow> bool" where
  "mismatch g = (case declared_id g of
       Inl e \<Rightarrow> False
     | Inr v \<Rightarrow> v \<noteq> PStr (splitext_root (entry_name g)))"

definition team_grants :: "event list \<Rightarrow> string list" where
  "team_grants tr =
     concat (map (\<lambda>ev. case ev of UpdateTeamRepository t r p \<Rightarrow> [t] | _ \<Rightarrow> []) tr)"

section \<open>Concrete inputs\<close>

definition sha_a :: string where
  "sha_a = ''aaaaaaaaaaaaaaaaaaaaaaaaaaaaaaaaaaaaaaaa''"

definition sha_b :: string where
  "sha_b = ''bbbbbbbbbbbbbbbbbbbbbbbbbbbbbbbbbbbbbbbb''"

definition pr_sample :: "string \<Rightarrow> string \<Rightarrow> pull_request" where
  "pr_sample st sha = \<lparr>pr_number = 7, pr_state = st, pr_head_label = ''alice:submit'',
     pr_head_sha = sha, pr_head_repo_clone_url = Some ''https://github.com/alice/flathub.git'',
     pr_user_login = ''alice'', pr_set_labels = None, pr_create_issue_comment = None,
     pr_edit = None, pr_get_issue = Inr \<lparr>issue_locked = False, issue_lock = None\<rparr>\<rparr>"

definition clone_sample :: "string \<Rightarrow> dir_entry list \<Rightarrow> clone" where
  "clone_sample sha files = \<lparr>head_target = sha, submodules_update = None,
     remotes_create = None, worktree = files\<rparr>"

definition flathub_sample :: "(nat \<Rightarrow> pull_request) \<Rightarrow> repository" where
  "flathub_sample prs = \<lparr>repository_name = ''flathub'', html_url = ''https://github.com/flathub/flathub'',
     get_pull = (\<lambda>n i. Inr (prs n)), get_branch = (\<lambda>b. Inl (GithubException 404)),
     remove_from_collaborators = (\<lambda>u. None), add_to_collaborators = (\<lambda>u. None),
     repo_edit = None\<rparr>"

definition world0 :: world where
  "world0 = \<lparr>trace = [], org_repos = [''flathub''], pull_calls = 0\<rparr>"

definition world1 :: world where
  "world1 = \<lparr>trace = [], org_repos = [''flathub'', ''org.example.App''], pull_calls = 0\<rparr>"

definition file_sample :: "string \<Rightarrow> exn + pyval \<Rightarrow> string + pyval option \<Rightarrow> dir_entry" where
  "file_sample name yaml json = \<lparr>entry_name = name, entry_isfile = True,
     yaml_safe_load = yaml, json_load_from_file = json\<rparr>"

definition manifest_sample :: "string \<Rightarrow> pyval" where
  "manifest_sample appid = PDict [(''app-id'', PStr appid), (''runtime'', PStr ''org.freedesktop.Platform'')]"

definition app_yml :: dir_entry where
  "app_yml = file_sample ''org.example.App.yml'' (Inr (manifest_sample ''org.example.App''))
     (Inl ''not a JSON document'')"

definition branch_sample :: "string \<Rightarrow> bool \<Rightarrow> branch" where
  "branch_sample sha prot = \<lparr>commit_sha = sha, protected = prot\<rparr>"

definition created_sample :: "string \<Rightarrow> branch \<Rightarrow> repository" where
  "created_sample name b = \<lparr>repository_name = name, html_url = ''https://github.com/flathub/'' @ name,
     get_pull = (\<lambda>n i. Inl (GithubException 404)), get_branch = (\<lambda>t. Inr b),
     remove_from_collaborators = (\<lambda>u. None), add_to_collaborators = (\<lambda>u. None),
     repo_edit = None\<rparr>"

definition team_sample :: "string list \<Rightarrow> team" where
  "team_sample members = \<lparr>has_in_members = (\<lambda>u. Inr (u \<in> set members)),
     update_team_repository = (\<lambda>r p. Inr True)\<rparr>"

definition org_sample :: "(nat \<Rightarrow> pull_request) \<Rightarrow> organization" where
  "org_sample prs = \<lparr>
     get_team_by_slug = (\<lambda>slug. if slug = ''admins'' then Inr (team_sample [''root''])
                              else if slug = ''reviewers'' then Inr (team_sample [''bob''])
                              else Inr (team_sample [])),
     get_repo_fault = (\<lambda>n. None),
     create_repo_fault = (\<lambda>n. None),
     repo_object = (\<lambda>n. if n = ''flathub'' then flathub_sample prs
                         else created_sample n (branch_sample sha_a True))\<rparr>"

definition event_sample :: "string \<Rightarrow> string \<Rightarrow> pyval" where
  "event_sample body login = PDict
     [(''action'', PStr ''created''),
      (''issue'', PDict [(''number'', PInt 7), (''pull_request'', PDict [])]),
      (''comment'', PDict [(''body'', PStr body), (''user'', PDict [(''login'', PStr login)])])]"

definition gql_sample :: "(string \<Rightarrow> exn + pyval) \<Rightarrow> gql_client" where
  "gql_sample protect = \<lparr>
     execute_get_repo_id = (\<lambda>r. Inr (PDict [(''repository'', PDict [(''id'', PStr ''R_1'')])])),
     execute_add_branch_protection = (\<lambda>i b. protect b)\<rparr>"

definition env_sample :: "string \<Rightarrow> string \<Rightarrow> (nat \<Rightarrow> pull_request) \<Rightarrow> dir_entry list \<Rightarrow> env" where
  "env_sample body login prs files = \<lparr>
     os_environ = (\<lambda>k. if k = ''INPUT_TOKEN'' then Some ''token''
                        else if k = ''GITHUB_EVENT_PATH'' then Some ''/github/event.json''
                        else None),
     json_load_file = (\<lambda>p. Inr (event_sample body login)),
     int_of_str = (\<lambda>s. None),
     github_Github = (\<lambda>t. \<lparr>get_organization = (\<lambda>n. Inr (org_sample prs)),
                            get_user = (\<lambda>l. case l of PStr u \<Rightarrow> Inr u
                                             | _ \<Rightarrow> Inl (GithubException 404))\<rparr>),
     temporary_directory = ''/tmp/clone'',
     clone_repository = (\<lambda>u p b. Inr (clone_sample sha_a files)),
     subprocess_run = (\<lambda>c d. None),
     graphql = (\<lambda>t. gql_sample (\<lambda>b. Inr (PDict [])))\<rparr>"

definition merge_comment :: string where
  "merge_comment = ''/merge head=aaaaaaaaaaaaaaaaaaaaaaaaaaaaaaaaaaaaaaaa''"

definition prs_sample :: "nat \<Rightarrow> pull_request" where
  "prs_sample n = pr_sample (if n < 3 then ''open'' else ''closed'') sha_a"

definition run_ok :: "string list \<Rightarrow> string \<Rightarrow> exn option" where
  "run_ok cmd cwd = None"

definition protect_fails_for :: "string \<Rightarrow> string \<Rightarrow> exn + pyval" where
  "protect_fails_for p b = (if b = p then Inl (OtherError ''TransportQueryError'') else Inr (PDict []))"

definition gql_master_fails :: "string \<Rightarrow> gql_client" where
  "gql_master_fails token = gql_sample (protect_fails_for ''master'')"

definition gql_stable_fails :: "string \<Rightarrow> gql_client" where
  "gql_stable_fails token = gql_sample (protect_fails_for ''stable'')"

definition finalize_sample :: "(string \<Rightarrow> gql_client) \<Rightarrow> (exn + bool) \<times> world" where
  "finalize_sample g =
     finalize_new_flathub_repo run_ok g (clone_sample sha_a [app_yml])
       (created_sample ''org.example.App'' (branch_sample sha_a True))
       ''org.example.App'' ''token'' ''submit'' ''master'' sha_a ''/tmp/clone'' world0"

definition create_once :: "(exn + repository option) \<times> world" where
  "create_once = create_new_flathub_repo (org_sample prs_sample) ''org.example.App'' world0"

definition create_twice :: "(exn + repository option) \<times> world" where
  "create_twice =
     create_new_flathub_repo (org_sample prs_sample) ''org.example.App'' (snd create_once)"

definition other_yml :: dir_entry where
  "other_yml = file_sample ''wrong.name.yml'' (Inr (manifest_sample ''org.example.App''))
     (Inl ''not a JSON document'')"

definition broken_yml :: dir_entry where
  "broken_yml = file_sample ''broken.yml'' (Inl (YAMLError ''mapping values are not allowed here''))
     (Inl ''not a JSON document'')"

definition broken_json :: dir_entry where
  "broken_json = file_sample ''broken.json'' (Inl (YAMLError ''not a YAML document''))
     (Inl ''unexpected character'')"

definition app_json :: dir_entry where
  "app_json = file_sample ''org.example.App.json'' (Inl (YAMLError ''not a YAML document''))
     (Inr (Some (manifest_sample ''org.example.App'')))"

definition listdir_sample :: "dir_entry list \<Rightarrow> string \<Rightarrow> dir_entry list" where
  "listdir_sample listing dirname = listing"

definition long_head_comment :: string where
  "long_head_comment = ''/merge head=aaaaaaaaaaaaaaaaaaaaaaaaaaaaaaaaaaaaaaaaa''"

definition trailing_text_comment :: string where
  "trailing_text_comment = ''/merge:beta head=aaaaaaaaaaaaaaaaaaaaaaaaaaaaaaaaaaaaaaaaxyz @bob''"

definition short_head_comment :: string where
  "short_head_comment = ''/merge head=aaaaaaaaaaaaaaaaaaaaaaaaaaaaaaaaaaaaaaa''"


definition clone_op_sample :: "string \<Rightarrow> string \<Rightarrow> string \<Rightarrow> string \<Rightarrow> exn + clone" where
  "clone_op_sample sha url path branch = Inr (clone_sample sha [])"

definition pr_open_with :: "string \<Rightarrow> nat \<Rightarrow> pull_request" where
  "pr_open_with sha n = pr_sample ''open'' sha"

definition acquire_sample :: "string \<Rightarrow> string \<Rightarrow> string \<Rightarrow> (exn + clone option) \<times> world" where
  "acquire_sample clone_sha pr_sha approved =
     clone_pr_fork (clone_op_sample clone_sha) (flathub_sample (pr_open_with pr_sha)) 7
       ''https://github.com/alice/flathub.git'' ''submit'' approved ''/tmp/clone'' world0"

definition gql_all_ok :: "string \<Rightarrow> gql_client" where
  "gql_all_ok token = gql_sample (protect_fails_for ''none'')"

definition publish_sample :: "string \<Rightarrow> bool \<Rightarrow> (exn + bool) \<times> world" where
  "publish_sample head prot =
     finalize_new_flathub_repo run_ok gql_all_ok (clone_sample sha_a [app_yml])
       (created_sample ''org.example.App'' (branch_sample head prot))
       ''org.example.App'' ''token'' ''submit'' ''master'' sha_a ''/tmp/clone'' world0"

definition accented_branch_comment :: string where
  "accented_branch_comment =
     ''/merge:caf'' @ [CHR 0xE9] @ '' head=aaaaaaaaaaaaaaaaaaaaaaaaaaaaaaaaaaaaaaaa''"

definition foreign_yml :: dir_entry where
  "foreign_yml = file_sample ''org.example.App.yml'' (Inr (manifest_sample ''org.other.App''))
     (Inl ''not a JSON document'')"

definition id_field_json :: dir_entry where
  "id_field_json = file_sample ''org.example.App.json'' (Inl (YAMLError ''not a YAML document''))
     (Inr (Some (PDict [(''id'', PStr ''org.example.App'')])))"

section \<open>Properties\<close>

lemmas prog_defs = ret_def raise_exn_def lift_def emit_def andthen_def try_except_def
  logging_info_def logging_error_def call_def

lemmas sample_defs = world0_def world1_def file_sample_def manifest_sample_def app_yml_def
  branch_sample_def created_sample_def team_sample_def org_sample_def event_sample_def
  gql_sample_def env_sample_def merge_comment_def prs_sample_def pr_sample_def clone_sample_def
  flathub_sample_def sha_a_def sha_b_def

lemmas model_defs = startswith_def endswith_def py_or_def dict_get_def getitem_def
  json_loads_to_string_def read_json_flatpak_manifest_def read_yaml_flatpak_manifest_def
  read_flatpak_manifest_def get_id_from_flatpak_manifest_def splitext_root_def glob_ext_def
  candidate_files_def detect_appid_def is_hex_def is_alpha_def is_digit_def is_word_above_ascii_def is_word_char_def
  is_branch_char_def
  is_handle_char_def strip_prefix_def match_branch_group_def match_rest_def
  command_pattern_search_def parse_merge_command_def repo_get_pull_def clone_pr_fork_def
  org_get_repo_def org_create_repo_def get_repo_in_org_def repo_exists_in_org_def
  create_new_flathub_repo_def push_to_flathub_remote_def set_protected_branch_def
  protected_patterns_def finalize_new_flathub_repo_def teams_to_add_def
  add_all_collaborators_def get_issue_from_pr_def close_pr_def load_github_event_def
  py_contains_def is_valid_event_def is_authorized_commenter_def py_int_def second_item_def
  as_str_def main_resolve_def main_promote_def main_close_def main_def exit_status_def
  Let_def


subsection \<open>The program logic\<close>

lemma satD:
  assumes "sat P Q m" and "m w = (r, w')"
  shows "\<exists>tr. trace w' = trace w @ tr \<and> list_all P tr" and "r = Inr x \<Longrightarrow> Q x"
  using assms unfolding sat_def by (metis snd_conv, metis fst_conv)

lemma sat_ret: "Q x \<Longrightarrow> sat P Q (ret x)"
  by (simp add: sat_def ret_def)

lemma sat_raise: "sat P Q (raise_exn e)"
  by (simp add: sat_def raise_exn_def)

lemma sat_lift: "(\<And>x. r = Inr x \<Longrightarrow> Q x) \<Longrightarrow> sat P Q (lift r)"
  by (simp add: sat_def lift_def)

lemma sat_emit: "P e \<Longrightarrow> Q () \<Longrightarrow> sat P Q (emit e)"
  by (simp add: sat_def emit_def)

lemma sat_andthen:
  assumes "sat P R m" and "\<And>x. R x \<Longrightarrow> sat P Q (f x)"
  shows "sat P Q (andthen m f)"
  unfolding sat_def
proof (intro allI)
  fix w
  obtain r w1 where m: "m w = (r, w1)" by (cases "m w")
  from satD(1)[OF assms(1) m] obtain tr1 where t1: "trace w1 = trace w @ tr1" "list_all P tr1"
    by blast
  show "(\<exists>tr. trace (snd (andthen m f w)) = trace w @ tr \<and> list_all P tr) \<and>
        (\<forall>x. fst (andthen m f w) = Inr x \<longrightarrow> Q x)"
  proof (cases r)
    case (Inl e)
    then show ?thesis using m t1 by (simp add: andthen_def)
  next
    case (Inr x)
    have R: "R x" using satD(2)[OF assms(1) m Inr] .
    obtain r2 w2 where f: "f x w1 = (r2, w2)" by (cases "f x w1")
    from satD(1)[OF assms(2)[OF R] f] obtain tr2 where
      t2: "trace w2 = trace w1 @ tr2" "list_all P tr2" by blast
    have q: "\<And>y. r2 = Inr y \<Longrightarrow> Q y" using satD(2)[OF assms(2)[OF R] f] .
    show ?thesis using m Inr f t1 t2 q by (auto simp: andthen_def)
  qed
qed

lemma sat_andthen_any:
  assumes "sat P (\<lambda>_. True) m" and "\<And>x. sat P Q (f x)"
  shows "sat P Q (andthen m f)"
  using assms by (rule sat_andthen)

lemma sat_try_except:
  assumes "sat P Q m" and "\<And>e k. h e = Some k \<Longrightarrow> sat P Q k"
  shows "sat P Q (try_except m h)"
  unfolding sat_def
proof (intro allI)
  fix w
  obtain r w1 where m: "m w = (r, w1)" by (cases "m w")
  from satD(1)[OF assms(1) m] obtain tr1 where t1: "trace w1 = trace w @ tr1" "list_all P tr1"
    by blast
  have q1: "\<And>y. r = Inr y \<Longrightarrow> Q y" using satD(2)[OF assms(1) m] .
  show "(\<exists>tr. trace (snd (try_except m h w)) = trace w @ tr \<and> list_all P tr) \<and>
        (\<forall>x. fst (try_except m h w) = Inr x \<longrightarrow> Q x)"
  proof (cases r)
    case (Inr x)
    then show ?thesis using m t1 q1 by (simp add: try_except_def)
  next
    case (Inl e)
    show ?thesis
    proof (cases "h e")
      case None
      then show ?thesis using m Inl t1 by (simp add: try_except_def)
    next
      case (Some k)
      obtain r2 w2 where f: "k w1 = (r2, w2)" by (cases "k w1")
      from satD(1)[OF assms(2)[OF Some] f] obtain tr2 where
        t2: "trace w2 = trace w1 @ tr2" "list_all P tr2" by blast
      have q: "\<And>y. r2 = Inr y \<Longrightarrow> Q y" using satD(2)[OF assms(2)[OF Some] f] .
      show ?thesis using m Inl Some f t1 t2 q by (auto simp: try_except_def)
    qed
  qed
qed

lemma sat_weaken: "sat P Q m \<Longrightarrow> (\<And>x. Q x \<Longrightarrow> Q' x) \<Longrightarrow> sat P Q' m"
  by (auto simp: sat_def)

lemma sat_mono: "sat P Q m \<Longrightarrow> (\<And>e. P e \<Longrightarrow> P' e) \<Longrightarrow> sat P' Q m"
  unfolding sat_def list_all_iff by blast

lemma sat_logging:
  "P (Log INFO f a) \<Longrightarrow> Q () \<Longrightarrow> sat P Q (logging_info f a)"
  "P (Log ERROR f a) \<Longrightarrow> Q () \<Longrightarrow> sat P Q (logging_error f a)"
  by (simp_all add: logging_info_def logging_error_def sat_emit)

lemma sat_call: "P e \<Longrightarrow> Q () \<Longrightarrow> sat P Q (call e r)"
  unfolding call_def
  by (cases r) (auto intro!: sat_andthen_any sat_emit sat_ret sat_raise)

lemma sat_repo_get_pull: "sat P (\<lambda>_. True) (repo_get_pull repo i)"
  by (simp add: sat_def repo_get_pull_def)

lemma sat_org_get_repo: "sat P (\<lambda>_. True) (org_get_repo org n)"
  by (simp add: sat_def org_get_repo_def split: option.splits)

lemma in_stepsI: "step_of e \<in> set S \<Longrightarrow> in_steps S e"
  by (simp add: in_steps_def)

lemma sat_steps_mono:
  assumes "sat (in_steps S) Q m" and "set S \<subseteq> set S'"
  shows "sat (in_steps S') Q m"
proof (rule sat_mono[OF assms(1)])
  fix e assume "in_steps S e"
  then show "in_steps S' e" using assms(2) unfolding in_steps_def by blast
qed

lemmas sat_intros = in_stepsI sat_andthen_any sat_ret sat_raise sat_lift sat_emit sat_logging sat_call
  sat_repo_get_pull sat_org_get_repo sat_try_except

subsection \<open>Effects of each function\<close>

lemma sat_org_create_repo:
  "P (CreateRepo n) \<Longrightarrow> sat P (\<lambda>_. True) (org_create_repo org n)"
  unfolding org_create_repo_def
  apply (rule sat_andthen_any)
   apply (rule sat_emit; simp)
  apply (simp add: sat_def split: option.splits)
  done


lemma sat_clone_pr_fork:
  "sat (in_steps [Logging, Acquisition]) (\<lambda>_. True) (clone_pr_fork cr p i u b a t)"
  unfolding clone_pr_fork_def Let_def
  by (auto intro!: sat_intros)

lemma sat_get_id:
  "sat (in_steps [Logging]) (\<lambda>_. True) (get_id_from_flatpak_manifest f)"
  unfolding get_id_from_flatpak_manifest_def read_flatpak_manifest_def
    read_yaml_flatpak_manifest_def read_json_flatpak_manifest_def Let_def
  by (auto intro!: sat_intros split: sum.splits exn.splits)

lemma sat_detect_loop:
  "sat (in_steps [Logging]) (\<lambda>_. True) (detect_appid_loop fs)"
  by (induction fs) (auto intro!: sat_intros sat_get_id simp: Let_def split: pyval.splits)

lemma sat_detect_appid:
  "sat (in_steps [Logging]) (\<lambda>_. True) (detect_appid l d)"
  unfolding detect_appid_def Let_def
  by (auto intro!: sat_intros sat_detect_loop)

lemma sat_parse_merge_command:
  "sat (in_steps [Logging]) (\<lambda>_. True) (parse_merge_command c)"
  unfolding parse_merge_command_def Let_def
  by (auto intro!: sat_intros split: option.splits prod.splits)

lemma sat_load_github_event:
  "sat (in_steps [Logging]) (\<lambda>_. True) (load_github_event a b)"
  unfolding load_github_event_def
  by (auto intro!: sat_intros split: option.splits exn.splits)

lemma sat_is_valid_event:
  "sat (in_steps [Logging]) (\<lambda>_. True) (is_valid_event ev)"
  unfolding is_valid_event_def
  by (auto intro!: sat_intros)

lemma sat_is_authorized_commenter:
  "sat (in_steps [Logging]) (\<lambda>_. True) (is_authorized_commenter org a)"
  unfolding is_authorized_commenter_def
  by (auto intro!: sat_intros)

lemma sat_get_repo_in_org:
  "sat (in_steps [Logging]) (\<lambda>_. True) (get_repo_in_org org n)"
  unfolding get_repo_in_org_def
  by (auto intro!: sat_intros split: exn.splits)

lemma sat_create_new_flathub_repo:
  "sat (in_steps [Logging, Provisioning]) (\<lambda>_. True) (create_new_flathub_repo org n)"
  unfolding create_new_flathub_repo_def repo_exists_in_org_def
  by (auto intro!: sat_intros sat_org_create_repo sat_steps_mono[OF sat_get_repo_in_org]
       split: exn.splits)





lemma sat_get_issue_from_pr:
  "sat (in_steps [Logging]) (\<lambda>_. True) (get_issue_from_pr pr)"
  unfolding get_issue_from_pr_def
  by (auto intro!: sat_intros split: exn.splits)

lemma sat_close_pr:
  "sat (in_steps [Logging, Closure]) (\<lambda>_. True) (close_pr pr r)"
  unfolding close_pr_def
  by (auto intro!: sat_intros sat_steps_mono[OF sat_get_issue_from_pr] split: exn.splits option.splits)

lemma sat_main_resolve:
  "sat (in_steps [Logging, Acquisition])
       (\<lambda>r. case r of Inl rc \<Rightarrow> rc = 1 | Inr c \<Rightarrow> True) (main_resolve e)"
  unfolding main_resolve_def Let_def
  by (auto intro!: sat_intros sat_clone_pr_fork
        sat_steps_mono[OF sat_load_github_event] sat_steps_mono[OF sat_is_valid_event]
        sat_steps_mono[OF sat_parse_merge_command] sat_steps_mono[OF sat_is_authorized_commenter]
        sat_steps_mono[OF sat_detect_appid]
       split: option.splits prod.splits)


subsection \<open>Traces\<close>

lemma events_since_append: "trace w' = trace w @ tr \<Longrightarrow> events_since w w' = tr"
  by (simp add: events_since_def)

lemma list_all_steps_mono:
  "list_all (in_steps S) tr \<Longrightarrow> set S \<subseteq> set S' \<Longrightarrow> list_all (in_steps S') tr"
  unfolding list_all_iff in_steps_def by blast

subsection \<open>Publication\<close>

lemma for_each_returns:
  assumes "\<And>x w. x \<in> set xs \<Longrightarrow> \<exists>y. fst (body x w) = Inr y"
  shows "fst (for_each xs body w) = Inr ()"
  using assms
proof (induction xs arbitrary: w)
  case Nil
  then show ?case by (simp add: ret_def)
next
  case (Cons x xs)
  obtain y where y: "fst (body x w) = Inr y" using Cons.prems[of x w] by auto
  obtain w1 where b: "body x w = (Inr y, w1)" using y by (cases "body x w") auto
  have "fst (for_each xs body w1) = Inr ()" using Cons.IH Cons.prems by simp
  then show ?case using b by (simp add: andthen_def)
qed

lemma set_protected_branch_returns:
  assumes "execute_get_repo_id (g t) n = Inr v" and "getitem v ''repository'' = Inr rv"
      and "getitem rv ''id'' = Inr rid" and "\<not> isl (execute_add_branch_protection (g t) rid p)"
  shows "\<exists>y. fst (set_protected_branch g t n p w) = Inr y"
  using assms
  by (cases "execute_add_branch_protection (g t) rid p")
     (simp_all add: set_protected_branch_def prog_defs)

lemma push_returns:
  "sr [''git'', ''push'', ''flathub'', pb @ '':'' @ tb] cp = None \<Longrightarrow>
   push_to_flathub_remote sr cp pb tb w =
     (Inr True, w\<lparr>trace := trace w @ [Log INFO ''Pushing changes to the new Flathub repo'' [],
                                        GitPush pb tb]\<rparr>)"
  by (simp add: push_to_flathub_remote_def prog_defs)

lemma set_protected_branch_eval:
  assumes "execute_get_repo_id (g t) n = Inr v" and "getitem v ''repository'' = Inr rv"
      and "getitem rv ''id'' = Inr rid"
  shows "set_protected_branch g t n p w =
           (execute_add_branch_protection (g t) rid p,
            w\<lparr>trace := trace w @ [CreateBranchProtectionRule n p]\<rparr>)"
  using assms by (simp add: set_protected_branch_def prog_defs)

lemma for_each_protect_fails:
  assumes "execute_get_repo_id (g t) n = Inr v" and "getitem v ''repository'' = Inr rv"
      and "getitem rv ''id'' = Inr rid"
      and "list_all (\<lambda>b. \<not> isl (execute_add_branch_protection (g t) rid b)) ok"
      and "execute_add_branch_protection (g t) rid p = Inl e"
  shows "for_each (ok @ p # todo) (set_protected_branch g t n) w =
           (Inl e, w\<lparr>trace := trace w @ map (CreateBranchProtectionRule n) (ok @ [p])\<rparr>)"
  using assms(4)
proof (induction ok arbitrary: w)
  case Nil
  show ?case
    using assms(5)
    by (simp add: andthen_def set_protected_branch_eval[of g t n v rv rid, OF assms(1,2,3)])
next
  case (Cons b bs)
  then obtain y where y: "execute_add_branch_protection (g t) rid b = Inr y"
    by (cases "execute_add_branch_protection (g t) rid b") auto
  have "list_all (\<lambda>b. \<not> isl (execute_add_branch_protection (g t) rid b)) bs"
    using Cons.prems by simp
  from Cons.IH[OF this] show ?case
    using y
    by (simp add: andthen_def set_protected_branch_eval[of g t n v rv rid, OF assms(1,2,3)])
qed

lemma for_each_protect_all:
  assumes "execute_get_repo_id (g t) n = Inr v" and "getitem v ''repository'' = Inr rv"
      and "getitem rv ''id'' = Inr rid"
      and "list_all (\<lambda>b. \<not> isl (execute_add_branch_protection (g t) rid b)) ps"
  shows "for_each ps (set_protected_branch g t n) w =
           (Inr (), w\<lparr>trace := trace w @ map (CreateBranchProtectionRule n) ps\<rparr>)"
  using assms(4)
proof (induction ps arbitrary: w)
  case Nil
  show ?case by (simp add: ret_def)
next
  case (Cons b bs)
  then obtain y where y: "execute_add_branch_protection (g t) rid b = Inr y"
    by (cases "execute_add_branch_protection (g t) rid b") auto
  have "list_all (\<lambda>b. \<not> isl (execute_add_branch_protection (g t) rid b)) bs"
    using Cons.prems by simp
  from Cons.IH[OF this] show ?case
    using y
    by (simp add: andthen_def set_protected_branch_eval[of g t n v rv rid, OF assms(1,2,3)])
qed

lemma protection_attempts_simps [simp]:
  "protection_attempts [] = []"
  "protection_attempts (Log l f a # tr) = protection_attempts tr"
  "protection_attempts (RemoteCreate x y # tr) = protection_attempts tr"
  "protection_attempts (GitPush x y # tr) = protection_attempts tr"
  "protection_attempts (RemoveFromCollaborators x y # tr) = protection_attempts tr"
  "protection_attempts (CreateBranchProtectionRule r p # tr) = p # protection_attempts tr"
  "protection_attempts (tr @ tr') = protection_attempts tr @ protection_attempts tr'"
  "protection_attempts (map (CreateBranchProtectionRule r) ps) = ps"
  by (induction ps) (simp_all add: protection_attempts_def)

lemma error_logs_simps [simp]:
  "error_logs [] = []"
  "error_logs (Log INFO f a # tr) = error_logs tr"
  "error_logs (Log ERROR f a # tr) = Log ERROR f a # error_logs tr"
  "error_logs (RemoteCreate x y # tr) = error_logs tr"
  "error_logs (GitPush x y # tr) = error_logs tr"
  "error_logs (RemoveFromCollaborators x y # tr) = error_logs tr"
  "error_logs (CreateBranchProtectionRule r p # tr) = error_logs tr"
  "error_logs (tr @ tr') = error_logs tr @ error_logs tr'"
  "error_logs (map (CreateBranchProtectionRule r) ps) = []"
  by (induction ps) (simp_all add: error_logs_def)

subsection \<open>Provisioning\<close>

lemma repo_exists_frame:
  assumes "repo_exists_in_org org n w = (r, w0)"
  shows "org_repos w0 = org_repos w"
  using assms
  by (auto simp: repo_exists_in_org_def get_repo_in_org_def org_get_repo_def prog_defs
      split: option.splits exn.splits if_splits)

lemma create_body:
  assumes "repo_exists_in_org org n w = (Inr False, w0)"
      and "create_new_flathub_repo org n w = (r, w')"
  shows "(org_repos w' = org_repos w0 \<and> (\<forall>a. r \<noteq> Inr (Some a))) \<or>
         (n \<notin> set (org_repos w0) \<and> org_repos w' = org_repos w0 @ [n])"
proof -
  have "create_new_flathub_repo org n w = (r, w')" by fact
  then show ?thesis
    unfolding create_new_flathub_repo_def
    apply (subst (asm) andthen_def)
    apply (simp only: assms(1) prod.case sum.case if_False)
    apply (auto simp: org_create_repo_def prog_defs
      split: option.splits exn.splits if_splits)
    done
qed

lemma create_exists_true:
  "repo_exists_in_org org n w = (Inr True, w0) \<Longrightarrow>
   create_new_flathub_repo org n w = (Inr None, w0)"
  by (simp add: create_new_flathub_repo_def andthen_def ret_def)

lemma create_exists_raise:
  "repo_exists_in_org org n w = (Inl e, w0) \<Longrightarrow>
   create_new_flathub_repo org n w = (Inl e, w0)"
  by (simp add: create_new_flathub_repo_def andthen_def)

lemma create_cases:
  assumes "create_new_flathub_repo org n w = (r, w')"
  shows "(org_repos w' = org_repos w \<and> (\<forall>a. r \<noteq> Inr (Some a))) \<or>
         (n \<notin> set (org_repos w) \<and> org_repos w' = org_repos w @ [n])"
proof -
  obtain x w0 where x: "repo_exists_in_org org n w = (x, w0)"
    by (cases "repo_exists_in_org org n w")
  have f: "org_repos w0 = org_repos w" using repo_exists_frame[OF x] .
  show ?thesis
  proof (cases x)
    case (Inl e)
    then show ?thesis using create_exists_raise[of org n w e w0] x assms f by simp
  next
    case (Inr b)
    show ?thesis
    proof (cases b)
      case True
      then show ?thesis using create_exists_true[of org n w w0] x Inr assms f by simp
    next
      case False
      then show ?thesis using create_body[of org n w w0 r w'] x Inr assms f by simp
    qed
  qed
qed

lemma create_exists_eval:
  "n \<in> set (org_repos w) \<Longrightarrow> get_repo_fault org n = None \<Longrightarrow>
   create_new_flathub_repo org n w = (Inr None, w)"
  by (simp add: create_new_flathub_repo_def repo_exists_in_org_def get_repo_in_org_def
        org_get_repo_def prog_defs)

lemma create_existing:
  assumes "n \<in> set (org_repos w)" and "create_new_flathub_repo org n w = (r, w')"
  shows "(r = Inr None \<or> (\<exists>x. r = Inl x)) \<and> org_repos w' = org_repos w"
proof -
  from create_cases[OF assms(2)] assms(1)
  have k: "org_repos w' = org_repos w" "\<forall>a. r \<noteq> Inr (Some a)" by auto
  have "r = Inr None \<or> (\<exists>x. r = Inl x)"
  proof (cases r)
    case (Inl e)
    then show ?thesis by simp
  next
    case (Inr y)
    then show ?thesis using k(2) by (cases y) auto
  qed
  then show ?thesis using k(1) by simp
qed

lemma promote_existing:
  assumes "ctx_appid c \<in> set (org_repos w1)" and "main_promote e c w1 = (r, w2)"
  shows "(r = Inr (Inl 1) \<or> (\<exists>x. r = Inl x)) \<and> org_repos w2 = org_repos w1 \<and>
         (\<exists>tr. trace w2 = trace w1 @ tr \<and> list_all (in_steps [Logging, Provisioning]) tr)"
proof -
  obtain r0 w0 where c: "create_new_flathub_repo (ctx_org c) (ctx_appid c) w1 = (r0, w0)"
    by (cases "create_new_flathub_repo (ctx_org c) (ctx_appid c) w1")
  from create_existing[OF assms(1) c]
  have r0: "r0 = Inr None \<or> (\<exists>x. r0 = Inl x)" and o: "org_repos w0 = org_repos w1" by auto
  from satD(1)[OF sat_create_new_flathub_repo c] obtain tr0 where
    t0: "trace w0 = trace w1 @ tr0" "list_all (in_steps [Logging, Provisioning]) tr0" by blast
  from r0 show ?thesis
  proof
    assume "r0 = Inr None"
    then have "r = Inr (Inl 1)"
      "w2 = w0\<lparr>trace := trace w0 @ [Log ERROR ''Failed to get GitHub repo after creation'' []]\<rparr>"
      using assms(2) c by (auto simp: main_promote_def prog_defs)
    then show ?thesis using o t0 by (simp add: in_steps_def)
  next
    assume "\<exists>x. r0 = Inl x"
    then obtain x where "r0 = Inl x" by blast
    then have "r = Inl x" "w2 = w0" using assms(2) c by (auto simp: main_promote_def prog_defs)
    then show ?thesis using o t0 by simp
  qed
qed

subsection \<open>Identifier resolution\<close>

lemma get_id_pure: "fst (get_id_from_flatpak_manifest f w) = declared_id f"
  unfolding declared_id_def get_id_from_flatpak_manifest_def read_flatpak_manifest_def
    read_yaml_flatpak_manifest_def read_json_flatpak_manifest_def json_loads_to_string_def
  by (auto simp: prog_defs Let_def split: sum.splits exn.splits option.splits pyval.splits)

lemma splitext_root_nonempty: "p \<noteq> [] \<Longrightarrow> splitext_root p \<noteq> []"
  by (auto simp: splitext_root_def Let_def)

lemma candidate_name_nonempty:
  "f \<in> set (candidate_files l) \<Longrightarrow> entry_name f \<noteq> []"
  by (auto simp: candidate_files_def glob_ext_def endswith_def)

lemma loop_cons_fst:
  "fst (detect_appid_loop (f # fs) w) =
     (case declared_id f of
        Inl e \<Rightarrow> Inl e
      | Inr v \<Rightarrow>
          if v = PStr (splitext_root (entry_name f)) \<and> splitext_root (entry_name f) \<noteq> []
          then Inr (Some (entry_name f), Some (splitext_root (entry_name f)))
          else fst (detect_appid_loop fs
                 (snd (get_id_from_flatpak_manifest f
                    (w\<lparr>trace := trace w @
                       [Log INFO ''Checking file %s for Flatpak ID'' [AStr (entry_name f)]]\<rparr>)))))"
proof -
  let ?w1 = "w\<lparr>trace := trace w @
               [Log INFO ''Checking file %s for Flatpak ID'' [AStr (entry_name f)]]\<rparr>"
  obtain r w2 where g: "get_id_from_flatpak_manifest f ?w1 = (r, w2)"
    by (cases "get_id_from_flatpak_manifest f ?w1")
  have d: "declared_id f = r" using get_id_pure[of f ?w1] g by simp
  show ?thesis
    by (cases r) (auto simp: d g prog_defs Let_def split: pyval.splits)
qed

lemma loop_first_match:
  assumes "list_all mismatch pre"
      and "declared_id f = Inr (PStr (splitext_root (entry_name f)))"
      and "entry_name f \<noteq> []"
  shows "fst (detect_appid_loop (pre @ f # post) w)
           = Inr (Some (entry_name f), Some (splitext_root (entry_name f)))"
  using assms(1)
proof (induction pre arbitrary: w)
  case Nil
  show ?case
    using assms(2) splitext_root_nonempty[OF assms(3)]
    by (simp only: append_Nil loop_cons_fst) simp
next
  case (Cons g gs)
  then obtain v where v: "declared_id g = Inr v" "v \<noteq> PStr (splitext_root (entry_name g))"
    by (cases "declared_id g") (auto simp: mismatch_def)
  have "list_all mismatch gs" using Cons.prems by simp
  from Cons.IH[OF this] show ?case
    using v by (simp only: append_Cons loop_cons_fst) simp
qed

lemma loop_no_match:
  assumes "list_all mismatch fs"
  shows "fst (detect_appid_loop fs w) = Inr (None, None)"
  using assms
proof (induction fs arbitrary: w)
  case Nil
  show ?case by (simp add: ret_def)
next
  case (Cons g gs)
  then obtain v where v: "declared_id g = Inr v" "v \<noteq> PStr (splitext_root (entry_name g))"
    by (cases "declared_id g") (auto simp: mismatch_def)
  have "list_all mismatch gs" using Cons.prems by simp
  from Cons.IH[OF this] show ?case
    using v by (simp only: loop_cons_fst) simp
qed

lemma loop_result_matches:
  assumes "fst (detect_appid_loop fs w) = Inr (Some n, Some a)"
  shows "\<exists>f\<in>set fs. entry_name f = n \<and> splitext_root n = a \<and> declared_id f = Inr (PStr a)"
  using assms
proof (induction fs arbitrary: w)
  case Nil
  then show ?case by (simp add: ret_def)
next
  case (Cons g gs)
  show ?case
  proof (cases "declared_id g")
    case (Inl e)
    then show ?thesis using Cons.prems by (simp only: loop_cons_fst) simp
  next
    case (Inr v)
    show ?thesis
    proof (cases "v = PStr (splitext_root (entry_name g)) \<and> splitext_root (entry_name g) \<noteq> []")
      case True
      then show ?thesis using Cons.prems Inr by (simp only: loop_cons_fst) auto
    next
      case False
      then have "fst (detect_appid_loop gs
                 (snd (get_id_from_flatpak_manifest g
                    (w\<lparr>trace := trace w @
                       [Log INFO ''Checking file %s for Flatpak ID'' [AStr (entry_name g)]]\<rparr>))))
                 = Inr (Some n, Some a)"
        using Cons.prems Inr by (simp only: loop_cons_fst) (simp split: if_splits)
      from Cons.IH[OF this] show ?thesis by auto
    qed
  qed
qed

lemma detect_appid_fst:
  "fst (detect_appid listdir dirname w) =
     (if candidate_files (listdir dirname) = [] then Inr (None, None)
      else fst (detect_appid_loop (candidate_files (listdir dirname)) w))"
  by (simp add: detect_appid_def Let_def prog_defs)

text \<open>
  What \<open>declared_id\<close> is, from the content of the file: the value of the field
  \<^verbatim>\<open>app-id\<close> of the loaded document or, when that is absent or empty, of the field
  \<^verbatim>\<open>id\<close>. A YAML file that does not load, and a document that is not a mapping,
  declare nothing; a JSON file that does not load, or has no root node, raises.
\<close>

lemma declared_id_yaml:
  assumes "entry_isfile f"
      and "endswith (entry_name f) ''.yml'' \<or> endswith (entry_name f) ''.yaml''"
  shows "declared_id f =
           (case yaml_safe_load f of
              Inr (PDict d) \<Rightarrow> Inr (py_or (dict_get d ''app-id'') (dict_get d ''id''))
            | Inr other \<Rightarrow> Inr PNone
            | Inl (YAMLError m) \<Rightarrow> Inr PNone
            | Inl e \<Rightarrow> Inl e)"
  using assms
  unfolding declared_id_def get_id_from_flatpak_manifest_def read_flatpak_manifest_def
    read_yaml_flatpak_manifest_def
  by (auto simp: prog_defs Let_def py_or_def dict_get_def
           split: sum.splits exn.splits pyval.splits option.splits)

lemma declared_id_json:
  assumes "entry_isfile f" and "endswith (entry_name f) ''.json''"
      and "\<not> endswith (entry_name f) ''.yml''" and "\<not> endswith (entry_name f) ''.yaml''"
  shows "declared_id f =
           (case json_load_from_file f of
              Inr (Some (PDict d)) \<Rightarrow> Inr (py_or (dict_get d ''app-id'') (dict_get d ''id''))
            | Inr (Some other) \<Rightarrow> Inr PNone
            | Inr None \<Rightarrow> Inl TypeError
            | Inl message \<Rightarrow> Inl TypeError)"
  using assms
  unfolding declared_id_def get_id_from_flatpak_manifest_def read_flatpak_manifest_def
    read_json_flatpak_manifest_def json_loads_to_string_def
  by (auto simp: prog_defs Let_def py_or_def dict_get_def
           split: sum.splits pyval.splits option.splits)

text \<open>
  The matching rule, for scans in which every file read before the match is read without
  an exception: the first candidate that declares its own base name is returned,
  whatever follows it; a file that is returned is a candidate with that property; and
  when every candidate is a mismatch, or there is none, the result is (None, None).
\<close>

lemma detect_appid_first_match:
  "(candidate_files (listdir dirname) = pre @ f # post \<longrightarrow>
      list_all mismatch pre \<longrightarrow>
      declared_id f = Inr (PStr (splitext_root (entry_name f))) \<longrightarrow>
      fst (detect_appid listdir dirname w)
        = Inr (Some (entry_name f), Some (splitext_root (entry_name f)))) \<and>
   (fst (detect_appid listdir dirname w) = Inr (Some manifest_file, Some appid) \<longrightarrow>
      list_ex (\<lambda>g. entry_name g = manifest_file \<and> splitext_root manifest_file = appid \<and>
                   declared_id g = Inr (PStr appid))
        (candidate_files (listdir dirname))) \<and>
   (list_all mismatch (candidate_files (listdir dirname)) \<longrightarrow>
      fst (detect_appid listdir dirname w) = Inr (None, None))"
proof -
  have one: "fst (detect_appid listdir dirname w)
        = Inr (Some (entry_name f), Some (splitext_root (entry_name f)))"
    if c: "candidate_files (listdir dirname) = pre @ f # post" and m: "list_all mismatch pre"
      and d: "declared_id f = Inr (PStr (splitext_root (entry_name f)))"
  proof -
    have "f \<in> set (candidate_files (listdir dirname))" using c by simp
    then have "entry_name f \<noteq> []" by (rule candidate_name_nonempty)
    from loop_first_match[OF m d this] show ?thesis by (simp add: detect_appid_fst c)
  qed
  have two: "list_ex (\<lambda>g. entry_name g = manifest_file \<and> splitext_root manifest_file = appid \<and>
                   declared_id g = Inr (PStr appid)) (candidate_files (listdir dirname))"
    if r: "fst (detect_appid listdir dirname w) = Inr (Some manifest_file, Some appid)"
  proof -
    have "fst (detect_appid_loop (candidate_files (listdir dirname)) w)
            = Inr (Some manifest_file, Some appid)"
      using r by (simp add: detect_appid_fst split: if_splits)
    from loop_result_matches[OF this] show ?thesis by (simp add: list_ex_iff)
  qed
  have three: "fst (detect_appid listdir dirname w) = Inr (None, None)"
    if "list_all mismatch (candidate_files (listdir dirname))"
    using loop_no_match[OF that] by (simp add: detect_appid_fst)
  show ?thesis using one two three by blast
qed

lemmas file_defs = other_yml_def broken_yml_def broken_json_def app_json_def listdir_sample_def
  declared_id_def mismatch_def

lemma detect_appid_first_match_example:
  "fst (detect_appid (listdir_sample [broken_json, other_yml, app_yml]) ''/tmp/clone'' world0)
     = Inr (Some ''org.example.App.yml'', Some ''org.example.App'') \<and>
   fst (detect_appid (listdir_sample [other_yml]) ''/tmp/clone'' world0) = Inr (None, None)"
proof -
  have c: "candidate_files (listdir_sample [broken_json, other_yml, app_yml] ''/tmp/clone'')
             = [other_yml] @ app_yml # [broken_json]"
    by (simp add: file_defs model_defs sample_defs)
  have c': "candidate_files (listdir_sample [other_yml] ''/tmp/clone'') = [other_yml]"
    by (simp add: file_defs model_defs sample_defs)
  have m: "list_all mismatch [other_yml]"
    by (simp add: file_defs model_defs prog_defs sample_defs)
  have d: "declared_id app_yml = Inr (PStr (splitext_root (entry_name app_yml)))"
    by (simp add: file_defs model_defs prog_defs sample_defs)
  have n: "entry_name app_yml = ''org.example.App.yml''"
          "splitext_root (entry_name app_yml) = ''org.example.App''"
    by (simp_all add: model_defs sample_defs)
  note t1 = detect_appid_first_match
      [where listdir = "listdir_sample [broken_json, other_yml, app_yml]"
         and dirname = "''/tmp/clone''" and pre = "[other_yml]" and f = app_yml
         and post = "[broken_json]" and w = world0]
  note t2 = detect_appid_first_match
      [where listdir = "listdir_sample [other_yml]" and dirname = "''/tmp/clone''" and w = world0]
  have a: "fst (detect_appid (listdir_sample [broken_json, other_yml, app_yml]) ''/tmp/clone'' world0)
     = Inr (Some ''org.example.App.yml'', Some ''org.example.App'')"
    using t1 c m d n by simp
  have b: "fst (detect_appid (listdir_sample [other_yml]) ''/tmp/clone'' world0) = Inr (None, None)"
    using t2 c' m by simp
  show ?thesis using a b by simp
qed

subsection \<open>Command parser\<close>

lemma parsed_sha_is_40_hex:
  assumes "fst (parse_merge_command c w) = Inr (b, Some sha, cs)"
  shows "length sha = 40 \<and> list_all is_hex sha"
  using assms
  by (auto simp: parse_merge_command_def command_pattern_search_def prog_defs Let_def
           split: if_splits option.splits prod.splits)

text \<open>A branch qualifier may hold letters beyond ASCII.\<close>

lemma accented_branch_is_parsed:
  "fst (parse_merge_command accented_branch_comment world0)
     = Inr (Some (''branch/caf'' @ [CHR 0xE9]), Some sha_a, Some [])"
  by (simp add: accented_branch_comment_def model_defs prog_defs sample_defs)

subsection \<open>Access grant\<close>





lemma team_grants_simps [simp]:
  "team_grants [] = []"
  "team_grants (Log l f a # tr) = team_grants tr"
  "team_grants (AddToCollaborators x y z # tr) = team_grants tr"
  "team_grants (UpdateTeamRepository t r p # tr) = t # team_grants tr"
  "team_grants (tr @ tr') = team_grants tr @ team_grants tr'"
  by (simp_all add: team_grants_def)





subsection \<open>A complete run\<close>

text \<open>
  With a valid command of an authorized reviewer, consistent SHAs and every call
  returning, \<^verbatim>\<open>main\<close> returns 0, the repository is created, and the review request is
  labelled, commented, closed and its thread locked, in that order.
\<close>

lemma main_succeeds_on_sample:
  "fst (main (env_sample merge_comment ''bob'' prs_sample [app_yml]) world0) = Inr 0 \<and>
   filter (\<lambda>ev. step_of ev = Closure)
     (trace (snd (main (env_sample merge_comment ''bob'' prs_sample [app_yml]) world0)))
   = [PrSetLabels 7 ''ready'',
      PrCreateIssueComment 7
        (close_comment (created_sample ''org.example.App'' (branch_sample sha_a True))),
      PrEdit 7 ''closed'', IssueLock 7 ''resolved''] \<and>
   org_repos (snd (main (env_sample merge_comment ''bob'' prs_sample [app_yml]) world0))
   = [''flathub'', ''org.example.App'']"
  by (simp add: model_defs prog_defs sample_defs close_comment_def)

subsection \<open>Claims\<close>

text \<open>
  C1. \<^verbatim>\<open>clone_pr_fork\<close> returns a clone only when the live review request is open and
  the approved SHA, the SHA of the clone's HEAD and the SHA of the live review request's
  head are pairwise equal. When the clone, the submodule update and the fetch of the
  review request return, the result is the clone if all of that holds and None as soon as
  one of the three identifiers differs from another, also when the other two agree.
\<close>

theorem clone_pr_fork_three_way_check:
  "(clone_pr_fork clone_op parent pr_id fork_url pr_branch approved clone_path w
        = (Inr (Some c), w') \<longrightarrow>
      clone_op fork_url clone_path pr_branch = Inr c \<and>
      (\<exists>pr. get_pull parent (pull_calls w) pr_id = Inr pr \<and> pr_state pr = ''open'' \<and>
         approved = head_target c \<and> head_target c = pr_head_sha pr \<and>
         approved = pr_head_sha pr)) \<and>
   (clone_op fork_url clone_path pr_branch = Inr cl \<longrightarrow>
      submodules_update cl = None \<longrightarrow>
      get_pull parent (pull_calls w) pr_id = Inr pr' \<longrightarrow>
      fst (clone_pr_fork clone_op parent pr_id fork_url pr_branch approved clone_path w)
        = Inr (if pr_state pr' = ''open'' \<and> approved = head_target cl \<and>
                  head_target cl = pr_head_sha pr' \<and> approved = pr_head_sha pr'
               then Some cl else None))"
  by (auto simp: clone_pr_fork_def prog_defs repo_get_pull_def Let_def
           split: sum.splits option.splits if_splits prod.splits)

theorem clone_pr_fork_three_way_check_witness:
  "fst (acquire_sample sha_b sha_b sha_a) = Inr None \<and>
   fst (acquire_sample sha_a sha_b sha_a) = Inr None \<and>
   fst (acquire_sample sha_b sha_a sha_a) = Inr None \<and>
   fst (acquire_sample sha_a sha_a sha_a) = Inr (Some (clone_sample sha_a [])) \<and>
   (\<exists>pr. get_pull (flathub_sample (pr_open_with sha_a)) 0 7 = Inr pr \<and>
         pr_state pr = ''open'' \<and> pr_head_sha pr = sha_a)"
proof -
  have a: "pull_calls world0 = 0" by (simp add: world0_def)
  have b: "get_pull (flathub_sample (pr_open_with s)) 0 7 = Inr (pr_sample ''open'' s)" for s
    by (simp add: flathub_sample_def pr_open_with_def)
  have c: "clone_op_sample s ''https://github.com/alice/flathub.git'' ''/tmp/clone'' ''submit''
             = Inr (clone_sample s [])" for s
    by (simp add: clone_op_sample_def)
  have d: "submodules_update (clone_sample s []) = None" "head_target (clone_sample s []) = s"
          "pr_head_sha (pr_sample ''open'' s) = s" "pr_state (pr_sample ''open'' s) = ''open''" for s
    by (simp_all add: clone_sample_def pr_sample_def)
  have ne: "sha_a \<noteq> sha_b" by (simp add: sha_a_def sha_b_def)
  have run: "fst (acquire_sample cs ps sha_a)
               = Inr (if sha_a = cs \<and> cs = ps \<and> sha_a = ps then Some (clone_sample cs []) else None)"
    for cs ps
    using clone_pr_fork_three_way_check
     [of "clone_op_sample cs" "flathub_sample (pr_open_with ps)"
         7 "''https://github.com/alice/flathub.git''" "''submit''" sha_a "''/tmp/clone''" world0
         "clone_sample cs []" world0 "clone_sample cs []" "pr_sample ''open'' ps"]
    by (simp add: a b c d acquire_sample_def)
  have ok: "acquire_sample sha_a sha_a sha_a
              = (Inr (Some (clone_sample sha_a [])), snd (acquire_sample sha_a sha_a sha_a))"
    using run[of sha_a sha_a] by (simp add: prod_eq_iff)
  have ok': "clone_pr_fork (clone_op_sample sha_a) (flathub_sample (pr_open_with sha_a)) 7
       ''https://github.com/alice/flathub.git'' ''submit'' sha_a ''/tmp/clone'' world0
       = (Inr (Some (clone_sample sha_a [])), snd (acquire_sample sha_a sha_a sha_a))"
    using ok by (simp add: acquire_sample_def)
  have ex: "\<exists>pr. get_pull (flathub_sample (pr_open_with sha_a)) 0 7 = Inr pr \<and>
         pr_state pr = ''open'' \<and> pr_head_sha pr = sha_a"
    using clone_pr_fork_three_way_check[THEN conjunct1, THEN mp, OF ok'] by (auto simp: a)
  show ?thesis using run[of sha_b sha_b] run[of sha_a sha_b] run[of sha_b sha_a] run[of sha_a sha_a]
      ne ex by simp
qed





text \<open>
  C10. If the repository of the resolved identifier is already in the organization when
  provisioning starts, the invocation ends with exit status 1, and the run has only
  logged, cloned and, at most, sent a creation request that the service refuses: nothing
  of publication, access grant or closure happens.
\<close>

theorem existing_repository_fails_invocation:
  assumes "main_resolve e w = (Inr (Inr c), w1)"
      and "ctx_appid c \<in> set (org_repos w1)"
  shows "exit_status (fst (main e w)) = 1 \<and>
         list_all (in_steps [Logging, Acquisition, Provisioning]) (events_since w (snd (main e w))) \<and>
         org_repos (snd (main e w)) = org_repos w1"
proof -
  obtain r2 w2 where p: "main_promote e c w1 = (r2, w2)" by (cases "main_promote e c w1")
  from promote_existing[OF assms(2) p] obtain tr2 where
    r2: "r2 = Inr (Inl 1) \<or> (\<exists>x. r2 = Inl x)" and o: "org_repos w2 = org_repos w1" and
    t2: "trace w2 = trace w1 @ tr2" "list_all (in_steps [Logging, Provisioning]) tr2" by blast
  from satD(1)[OF sat_main_resolve assms(1)] obtain tr1 where
    t1: "trace w1 = trace w @ tr1" "list_all (in_steps [Logging, Acquisition]) tr1" by blast
  have m: "main e w = (case r2 of Inl x \<Rightarrow> Inl x | Inr y \<Rightarrow> Inr 1, w2)"
    using assms(1) p r2 by (auto simp: main_def prog_defs)
  have ex: "exit_status (fst (main e w)) = 1"
    using m r2 by (auto simp: exit_status_def)
  have "trace w2 = trace w @ (tr1 @ tr2)" using t1 t2 by simp
  then have ev: "events_since w (snd (main e w)) = tr1 @ tr2"
    using m by (simp add: events_since_append)
  have "list_all (in_steps [Logging, Acquisition, Provisioning]) (tr1 @ tr2)"
    using list_all_steps_mono[OF t1(2), of "[Logging, Acquisition, Provisioning]"]
          list_all_steps_mono[OF t2(2), of "[Logging, Acquisition, Provisioning]"] by simp
  then show ?thesis using ex ev m o by simp
qed

lemma bob_resolves_existing:
  "\<exists>c w1. main_resolve (env_sample merge_comment ''bob'' prs_sample [app_yml]) world1
             = (Inr (Inr c), w1) \<and>
          ctx_appid c = ''org.example.App'' \<and> org_repos w1 = org_repos world1"
  by (simp add: model_defs prog_defs sample_defs)

theorem existing_repository_fails_invocation_witness:
  "exit_status (fst (main (env_sample merge_comment ''bob'' prs_sample [app_yml]) world1)) = 1 \<and>
   list_all (in_steps [Logging, Acquisition, Provisioning])
     (events_since world1
        (snd (main (env_sample merge_comment ''bob'' prs_sample [app_yml]) world1)))"
proof -
  obtain c w1 where
    r: "main_resolve (env_sample merge_comment ''bob'' prs_sample [app_yml]) world1
          = (Inr (Inr c), w1)" and
    a: "ctx_appid c = ''org.example.App''" and o: "org_repos w1 = org_repos world1"
    using bob_resolves_existing by blast
  have "ctx_appid c \<in> set (org_repos w1)" using a o by (simp add: world1_def)
  from existing_repository_fails_invocation[OF r this] show ?thesis by simp
qed

text \<open>
  C2. \<^verbatim>\<open>finalize_new_flathub_repo\<close> returns True only if the branch fetched after
  the push has the approved SHA as head and is protected. When the calls before the fetch
  return, the push included, and the fetched head differs from the approved SHA or the
  branch is not protected, it returns False.
\<close>

theorem finalize_refetch_check:
  "(finalize_new_flathub_repo sr g cl remote n t pb tb approved cp w = (Inr True, w') \<longrightarrow>
       (\<exists>b. get_branch remote tb = Inr b \<and> commit_sha b = approved \<and> protected b)) \<and>
   (remotes_create cl = None \<longrightarrow>
    sr [''git'', ''push'', ''flathub'', pb @ '':'' @ tb] cp = None \<longrightarrow>
    remove_from_collaborators remote ''flathubbot'' = None \<longrightarrow>
    execute_get_repo_id (g t) n = Inr v \<longrightarrow>
    getitem v ''repository'' = Inr rv \<longrightarrow>
    getitem rv ''id'' = Inr rid \<longrightarrow>
    list_all (\<lambda>p. \<not> isl (execute_add_branch_protection (g t) rid p)) protected_patterns \<longrightarrow>
    get_branch remote tb = Inr b' \<longrightarrow>
    (commit_sha b' \<noteq> approved \<or> \<not> protected b') \<longrightarrow>
    fst (finalize_new_flathub_repo sr g cl remote n t pb tb approved cp w) = Inr False)"
proof (intro conjI impI)
  assume "finalize_new_flathub_repo sr g cl remote n t pb tb approved cp w = (Inr True, w')"
  then show "\<exists>b. get_branch remote tb = Inr b \<and> commit_sha b = approved \<and> protected b"
    by (auto simp: finalize_new_flathub_repo_def prog_defs Let_def
             split: sum.splits prod.splits if_splits option.splits)
next
  assume a: "remotes_create cl = None"
    "sr [''git'', ''push'', ''flathub'', pb @ '':'' @ tb] cp = None"
    "remove_from_collaborators remote ''flathubbot'' = None"
    "execute_get_repo_id (g t) n = Inr v" "getitem v ''repository'' = Inr rv"
    "getitem rv ''id'' = Inr rid"
    "list_all (\<lambda>p. \<not> isl (execute_add_branch_protection (g t) rid p)) protected_patterns"
    "get_branch remote tb = Inr b'" "commit_sha b' \<noteq> approved \<or> \<not> protected b'"
  have loop: "\<And>w0. fst (for_each protected_patterns
                 (\<lambda>branch. set_protected_branch g t n branch) w0) = Inr ()"
  proof (rule for_each_returns)
    fix x w1 assume "x \<in> set protected_patterns"
    then have "\<not> isl (execute_add_branch_protection (g t) rid x)"
      using a(7) by (simp add: list_all_iff)
    then show "\<exists>y. fst (set_protected_branch g t n x w1) = Inr y"
      using set_protected_branch_returns[of g t n v rv rid, OF a(4,5,6)] by blast
  qed
  have loop': "\<And>w0 x w1. for_each protected_patterns (set_protected_branch g t n) w0
                  \<noteq> (Inl x, w1)"
    using loop by (metis fst_conv sum.distinct(1))
  show "fst (finalize_new_flathub_repo sr g cl remote n t pb tb approved cp w) = Inr False"
    using a(1,3,8,9) loop'
    by (auto simp: finalize_new_flathub_repo_def Let_def push_returns[of sr pb tb cp, OF a(2)]
          prog_defs split: prod.splits sum.splits)
qed


lemma publish_sample_runs: "fst (publish_sample sha_a True) = Inr True"
  by (simp add: publish_sample_def run_ok_def gql_all_ok_def protect_fails_for_def
        model_defs prog_defs sample_defs)

theorem finalize_refetch_check_witness:
  "fst (publish_sample sha_b True) = Inr False \<and>
   fst (publish_sample sha_a False) = Inr False \<and>
   fst (publish_sample sha_a True) = Inr True \<and>
   (\<exists>b. get_branch (created_sample ''org.example.App'' (branch_sample sha_a True)) ''master'' = Inr b \<and>
        commit_sha b = sha_a \<and> protected b)"
proof -
  note t = finalize_refetch_check
    [where sr = run_ok and g = gql_all_ok and cl = "clone_sample sha_a [app_yml]"
       and n = "''org.example.App''" and t = "''token''" and pb = "''submit''"
       and tb = "''master''" and approved = sha_a and cp = "''/tmp/clone''" and w = world0
       and v = "PDict [(''repository'', PDict [(''id'', PStr ''R_1'')])]"
       and rv = "PDict [(''id'', PStr ''R_1'')]" and rid = "PStr ''R_1''"]
  have f: "fst (publish_sample h p) = Inr False" if "h \<noteq> sha_a \<or> \<not> p" for h p
    using t[where remote = "created_sample ''org.example.App'' (branch_sample h p)"
              and b' = "branch_sample h p" and w' = world0] that
    by (simp add: publish_sample_def run_ok_def gql_all_ok_def protect_fails_for_def
          sample_defs getitem_def protected_patterns_def)
  have ne: "sha_b \<noteq> sha_a" by (simp add: sha_a_def sha_b_def)
  have ok: "finalize_new_flathub_repo run_ok gql_all_ok (clone_sample sha_a [app_yml])
       (created_sample ''org.example.App'' (branch_sample sha_a True))
       ''org.example.App'' ''token'' ''submit'' ''master'' sha_a ''/tmp/clone'' world0
       = (Inr True, snd (publish_sample sha_a True))"
    using publish_sample_runs by (simp add: prod_eq_iff publish_sample_def)
  have ex: "\<exists>b. get_branch (created_sample ''org.example.App'' (branch_sample sha_a True)) ''master'' = Inr b \<and>
        commit_sha b = sha_a \<and> protected b"
    using finalize_refetch_check[THEN conjunct1, THEN mp, OF ok] .
  show ?thesis using f[of sha_b True] f[of sha_a False] ne publish_sample_runs ex by simp
qed

text \<open>
  C3, as the code has it. The six patterns are protected in the order of
  \<open>protected_patterns\<close>, each after the call for the one before has returned. When the
  step gets to the loop and the call for a pattern raises, the exception leaves
  \<^verbatim>\<open>finalize_new_flathub_repo\<close>: the patterns after it are not attempted and no error
  is logged. When no call raises, all six are attempted.
\<close>

theorem protection_failure_propagates:
  assumes "remotes_create cl = None"
      and "sr [''git'', ''push'', ''flathub'', pb @ '':'' @ tb] cp = None"
      and "remove_from_collaborators remote ''flathubbot'' = None"
      and "execute_get_repo_id (g t) n = Inr v"
      and "getitem v ''repository'' = Inr rv"
      and "getitem rv ''id'' = Inr rid"
  shows "(protected_patterns = ok @ p # todo \<longrightarrow>
          list_all (\<lambda>b. \<not> isl (execute_add_branch_protection (g t) rid b)) ok \<longrightarrow>
          execute_add_branch_protection (g t) rid p = Inl e \<longrightarrow>
            fst (finalize_new_flathub_repo sr g cl remote n t pb tb approved cp w) = Inl e \<and>
            protection_attempts
              (events_since w (snd (finalize_new_flathub_repo sr g cl remote n t pb tb approved cp w)))
              = ok @ [p] \<and>
            error_logs
              (events_since w (snd (finalize_new_flathub_repo sr g cl remote n t pb tb approved cp w)))
              = []) \<and>
         (list_all (\<lambda>b. \<not> isl (execute_add_branch_protection (g t) rid b)) protected_patterns \<longrightarrow>
            protection_attempts
              (events_since w (snd (finalize_new_flathub_repo sr g cl remote n t pb tb approved cp w)))
              = protected_patterns)"
proof (intro conjI impI)
  assume pp: "protected_patterns = ok @ p # todo"
     and ok: "list_all (\<lambda>b. \<not> isl (execute_add_branch_protection (g t) rid b)) ok"
     and f: "execute_add_branch_protection (g t) rid p = Inl e"
  have fin: "finalize_new_flathub_repo sr g cl remote n t pb tb approved cp w =
      (Inl e, w\<lparr>trace := trace w @
         [Log INFO ''Adding Flathub remote'' [],
          RemoteCreate ''flathub''
            (''https://x-access-token:'' @ t @ ''@github.com/flathub/'' @ n),
          Log INFO ''Pushing changes to the new Flathub repo'' [],
          GitPush pb tb,
          Log INFO ''Removing flathubbot from collaborators'' [],
          RemoveFromCollaborators (repository_name remote) ''flathubbot'',
          Log INFO ''Setting protected branches'' []]
         @ map (CreateBranchProtectionRule n) (ok @ [p])\<rparr>)"
    using assms(1,3)
    by (simp add: finalize_new_flathub_repo_def Let_def pp
          push_returns[of sr pb tb cp, OF assms(2)]
          for_each_protect_fails[of g t n v rv rid ok p e, OF assms(4,5,6) ok f]
          prog_defs)
  show "fst (finalize_new_flathub_repo sr g cl remote n t pb tb approved cp w) = Inl e"
    by (simp add: fin)
  show "protection_attempts
          (events_since w (snd (finalize_new_flathub_repo sr g cl remote n t pb tb approved cp w)))
        = ok @ [p]"
    by (simp add: fin events_since_def)
  show "error_logs
          (events_since w (snd (finalize_new_flathub_repo sr g cl remote n t pb tb approved cp w)))
        = []"
    by (simp add: fin events_since_def)
next
  assume ok: "list_all (\<lambda>b. \<not> isl (execute_add_branch_protection (g t) rid b)) protected_patterns"
  show "protection_attempts
          (events_since w (snd (finalize_new_flathub_repo sr g cl remote n t pb tb approved cp w)))
        = protected_patterns"
    using assms(1,3)
    by (cases "get_branch remote tb")
       (simp_all add: finalize_new_flathub_repo_def Let_def
          push_returns[of sr pb tb cp, OF assms(2)]
          for_each_protect_all[of g t n v rv rid protected_patterns, OF assms(4,5,6) ok]
          prog_defs events_since_def)
qed

theorem protection_failure_propagates_witness:
  "fst (finalize_sample gql_stable_fails) = Inl (OtherError ''TransportQueryError'') \<and>
   protection_attempts (events_since world0 (snd (finalize_sample gql_stable_fails)))
     = [''master'', ''main'', ''stable''] \<and>
   error_logs (events_since world0 (snd (finalize_sample gql_stable_fails))) = [] \<and>
   protection_attempts (events_since world0 (snd (finalize_sample gql_all_ok)))
     = [''master'', ''main'', ''stable'', ''branch/*'', ''beta'', ''beta/*'']"
proof -
  note t = protection_failure_propagates
    [where sr = run_ok and cl = "clone_sample sha_a [app_yml]"
       and remote = "created_sample ''org.example.App'' (branch_sample sha_a True)"
       and n = "''org.example.App''" and t = "''token''" and pb = "''submit''"
       and tb = "''master''" and approved = sha_a and cp = "''/tmp/clone''" and w = world0
       and v = "PDict [(''repository'', PDict [(''id'', PStr ''R_1'')])]"
       and rv = "PDict [(''id'', PStr ''R_1'')]" and rid = "PStr ''R_1''"]
  have a: "fst (finalize_sample gql_stable_fails) = Inl (OtherError ''TransportQueryError'') \<and>
     protection_attempts (events_since world0 (snd (finalize_sample gql_stable_fails)))
       = [''master'', ''main'', ''stable''] \<and>
     error_logs (events_since world0 (snd (finalize_sample gql_stable_fails))) = []"
    using t[where g = gql_stable_fails and ok = "[''master'', ''main'']" and p = "''stable''"
              and todo = "[''branch/*'', ''beta'', ''beta/*'']"
              and e = "OtherError ''TransportQueryError''"]
    by (simp add: finalize_sample_def run_ok_def gql_stable_fails_def protect_fails_for_def
          sample_defs getitem_def protected_patterns_def)
  have b: "protection_attempts (events_since world0 (snd (finalize_sample gql_all_ok)))
     = [''master'', ''main'', ''stable'', ''branch/*'', ''beta'', ''beta/*'']"
    using t[where g = gql_all_ok]
    by (simp add: finalize_sample_def run_ok_def gql_all_ok_def protect_fails_for_def
          sample_defs getitem_def protected_patterns_def)
  show ?thesis using a b by simp
qed

text \<open>
  C3 as stated fails: with the call for \<^verbatim>\<open>master\<close> raising, the step ends with that
  exception, no other pattern is attempted and no error is logged.
\<close>

theorem protection_failure_counterexample:
  "fst (finalize_sample gql_master_fails) = Inl (OtherError ''TransportQueryError'') \<and>
   protection_attempts (trace (snd (finalize_sample gql_master_fails))) = [''master''] \<and>
   error_logs (trace (snd (finalize_sample gql_master_fails))) = []"
  by (simp add: finalize_sample_def run_ok_def gql_master_fails_def protect_fails_for_def
        model_defs prog_defs sample_defs)

text \<open>
  C5. When the repository is in the organization and the service answers the lookup,
  \<^verbatim>\<open>create_new_flathub_repo\<close> returns None and does nothing. Whatever the service
  answers, a name that is in the organization is not created again and no repository is
  returned. Two calls in a row with the same name add the name at most once, at most one
  of them returns a repository, and after a first call that returned one the second
  returns None and changes nothing.
\<close>

theorem create_new_flathub_repo_idempotent:
  "(repo_name \<in> set (org_repos w) \<longrightarrow> get_repo_fault org repo_name = None \<longrightarrow>
      create_new_flathub_repo org repo_name w = (Inr None, w)) \<and>
   (repo_name \<in> set (org_repos w) \<longrightarrow>
      org_repos (snd (create_new_flathub_repo org repo_name w)) = org_repos w \<and>
      (fst (create_new_flathub_repo org repo_name w) = Inr None \<or>
       isl (fst (create_new_flathub_repo org repo_name w)))) \<and>
   (create_new_flathub_repo org repo_name w = (r1, w1) \<longrightarrow>
    create_new_flathub_repo org' repo_name w1 = (r2, w2) \<longrightarrow>
      count_list (org_repos w2) repo_name \<le> max 1 (count_list (org_repos w) repo_name) \<and>
      \<not> ((\<exists>a. r1 = Inr (Some a)) \<and> (\<exists>b. r2 = Inr (Some b))) \<and>
      ((\<exists>a. r1 = Inr (Some a)) \<longrightarrow> get_repo_fault org' repo_name = None \<longrightarrow>
         r2 = Inr None \<and> w2 = w1))"
proof -
  have one: "create_new_flathub_repo org repo_name w = (Inr None, w)"
    if "repo_name \<in> set (org_repos w)" and "get_repo_fault org repo_name = None"
    using that by (rule create_exists_eval)
  have two: "org_repos (snd (create_new_flathub_repo org repo_name w)) = org_repos w \<and>
      (fst (create_new_flathub_repo org repo_name w) = Inr None \<or>
       isl (fst (create_new_flathub_repo org repo_name w)))"
    if n: "repo_name \<in> set (org_repos w)"
  proof -
    obtain r w' where c: "create_new_flathub_repo org repo_name w = (r, w')"
      by (cases "create_new_flathub_repo org repo_name w")
    from create_cases[OF c] n
    have k: "org_repos w' = org_repos w" "\<forall>a. r \<noteq> Inr (Some a)" by auto
    have "r = Inr None \<or> isl r"
    proof (cases r)
      case (Inl e)
      then show ?thesis by simp
    next
      case (Inr y)
      then show ?thesis using k(2) by (cases y) auto
    qed
    then show ?thesis using c k(1) by simp
  qed
  have three: "count_list (org_repos w2) repo_name \<le> max 1 (count_list (org_repos w) repo_name) \<and>
      \<not> ((\<exists>a. r1 = Inr (Some a)) \<and> (\<exists>b. r2 = Inr (Some b))) \<and>
      ((\<exists>a. r1 = Inr (Some a)) \<longrightarrow> get_repo_fault org' repo_name = None \<longrightarrow>
         r2 = Inr None \<and> w2 = w1)"
    if c1: "create_new_flathub_repo org repo_name w = (r1, w1)"
    and c2: "create_new_flathub_repo org' repo_name w1 = (r2, w2)"
  proof -
    note k1 = create_cases[OF c1] and k2 = create_cases[OF c2]
    have a: "count_list (org_repos w2) repo_name \<le> max 1 (count_list (org_repos w) repo_name)"
      using k1 k2 by (auto simp: count_list_0_iff)
    have b: "\<not> ((\<exists>a. r1 = Inr (Some a)) \<and> (\<exists>b. r2 = Inr (Some b)))"
      using k1 k2 by auto
    have c: "r2 = Inr None \<and> w2 = w1"
      if "\<exists>a. r1 = Inr (Some a)" and g: "get_repo_fault org' repo_name = None"
    proof -
      have "repo_name \<in> set (org_repos w1)" using k1 that(1) by auto
      from create_exists_eval[OF this g] c2 show ?thesis by simp
    qed
    show ?thesis using a b c by blast
  qed
  show ?thesis using one two three by blast
qed

lemma create_once_creates: "\<exists>a. fst create_once = Inr (Some a)"
  by (simp add: create_once_def model_defs prog_defs sample_defs)

theorem create_new_flathub_repo_idempotent_witness:
  "create_new_flathub_repo (org_sample prs_sample) ''org.example.App'' world1
     = (Inr None, world1) \<and>
   fst create_twice = Inr None \<and> snd create_twice = snd create_once \<and>
   count_list (org_repos (snd create_twice)) ''org.example.App'' \<le> 1"
proof -
  have g: "get_repo_fault (org_sample prs_sample) ''org.example.App'' = None"
    by (simp add: org_sample_def)
  have m: "''org.example.App'' \<in> set (org_repos world1)"
    by (simp add: world1_def)
  have z: "count_list (org_repos world0) ''org.example.App'' = 0"
    by (simp add: world0_def)
  have c1: "create_new_flathub_repo (org_sample prs_sample) ''org.example.App'' world0
              = (fst create_once, snd create_once)"
    by (simp add: create_once_def)
  have c2: "create_new_flathub_repo (org_sample prs_sample) ''org.example.App'' (snd create_once)
              = (fst create_twice, snd create_twice)"
    by (simp add: create_twice_def)
  note t1 = create_new_flathub_repo_idempotent
      [where repo_name = "''org.example.App''" and w = world1 and org = "org_sample prs_sample"]
  note t2 = create_new_flathub_repo_idempotent
      [where repo_name = "''org.example.App''" and w = world0 and org = "org_sample prs_sample"
         and org' = "org_sample prs_sample" and ?r1.0 = "fst create_once"
         and ?w1.0 = "snd create_once" and ?r2.0 = "fst create_twice"
         and ?w2.0 = "snd create_twice"]
  have a: "create_new_flathub_repo (org_sample prs_sample) ''org.example.App'' world1
             = (Inr None, world1)"
    using t1 m g by blast
  have b: "count_list (org_repos (snd create_twice)) ''org.example.App'' \<le> 1"
    using t2 c1 c2 z by simp
  have c: "fst create_twice = Inr None \<and> snd create_twice = snd create_once"
    using t2 c1 c2 create_once_creates g by blast
  show ?thesis using a b c by blast
qed

text \<open>
  C6 on concrete directories. A directory whose only candidate is a JSON file that fails
  to load has no matching candidate, and \<^verbatim>\<open>detect_appid\<close> raises a TypeError where
  (None, None) is due; with a self-named manifest after such a file it raises instead of
  returning that manifest. Apart from that the rule holds: a file named after one
  identifier that declares another is not returned, a file that declares its base name
  in the field \<^verbatim>\<open>id\<close> is, the first match in scan order wins, and an empty directory
  gives (None, None).
\<close>

theorem unparsable_json_breaks_resolution:
  "fst (detect_appid (listdir_sample [broken_json]) ''/tmp/clone'' world0) = Inl TypeError \<and>
   fst (detect_appid (listdir_sample [other_yml, broken_json, app_json]) ''/tmp/clone'' world0)
     = Inl TypeError \<and>
   fst (detect_appid (listdir_sample [foreign_yml]) ''/tmp/clone'' world0) = Inr (None, None) \<and>
   fst (detect_appid (listdir_sample [foreign_yml, id_field_json]) ''/tmp/clone'' world0)
     = Inr (Some ''org.example.App.json'', Some ''org.example.App'') \<and>
   fst (detect_appid (listdir_sample [app_json, other_yml, app_yml]) ''/tmp/clone'' world0)
     = Inr (Some ''org.example.App.yml'', Some ''org.example.App'') \<and>
   fst (detect_appid (listdir_sample []) ''/tmp/clone'' world0) = Inr (None, None)"
  by (simp add: foreign_yml_def id_field_json_def file_defs model_defs prog_defs sample_defs)

text \<open>
  C9 on a concrete directory. A JSON manifest that fails to load is logged, and then the
  read of the absent root node raises a TypeError that ends the scan, although a valid
  manifest follows. A YAML manifest that fails to load is logged and skipped.
\<close>

theorem json_parse_error_aborts_scan:
  "fst (detect_appid (listdir_sample [broken_json, app_json]) ''/tmp/clone'' world0) = Inl TypeError \<and>
   trace (snd (detect_appid (listdir_sample [broken_json, app_json]) ''/tmp/clone'' world0)) =
     [Log INFO ''Checking file %s for Flatpak ID'' [AStr ''broken.json''],
      Log ERROR ''Failed to load JSON Flatpak manifest: %s'' [AStr ''unexpected character'']] \<and>
   fst (detect_appid (listdir_sample [broken_yml, app_yml]) ''/tmp/clone'' world0)
     = Inr (Some ''org.example.App.yml'', Some ''org.example.App'')"
  by (simp add: file_defs model_defs prog_defs sample_defs)

text \<open>
  C7 on concrete comments. A head token of 41 hexadecimal characters is accepted: its
  first 40 characters are the SHA and the rest is read as trailing text. So is a token
  of 40 hexadecimal characters followed by other characters. A head token shorter than
  40 characters is refused with all three outputs absent.
\<close>

theorem overlong_head_is_accepted:
  "fst (parse_merge_command long_head_comment world0) = Inr (Some ''master'', Some sha_a, Some []) \<and>
   fst (parse_merge_command trailing_text_comment world0)
     = Inr (Some ''beta'', Some sha_a, Some [''bob'']) \<and>
   fst (parse_merge_command short_head_comment world0) = Inr (None, None, None)"
  by (simp add: long_head_comment_def trailing_text_comment_def short_head_comment_def
        model_defs prog_defs sample_defs)




end
